theory Spec2Isabelle
  imports Complex_Main "HOL-Library.AList"
begin

section \<open>Python values, exceptions and string methods\<close>

text \<open>
  The agents exchange text with a language-model service and decode it with
  \<^verbatim>\<open>json.loads\<close>. Whatever the decoder returns is stored in the dataclasses
  unchecked, so the model keeps decoded values in one type of dynamic values.
  A \<open>char\<close> stands for a code point below 256. Floats are read as the rational
  numbers they denote; NaN, the infinities and rounding are outside the model.
  A dict is an association list in insertion order with distinct keys.
\<close>

datatype json =
    JNull
  | JBool bool
  | JInt int
  | JFloat rat
  | JString string
  | JArray "json list"
  | JObject "(string \<times> json) list"

datatype exn =
    JSONDecodeError
  | ValueError
  | KeyError
  | TypeError
  | AttributeError
  | IndexError
  | OverflowError
  | ClientError

definition ebind :: "exn + 'a \<Rightarrow> ('a \<Rightarrow> exn + 'b) \<Rightarrow> exn + 'b" where
  "ebind m f = (case m of Inl e \<Rightarrow> Inl e | Inr x \<Rightarrow> f x)"

text \<open>\<^verbatim>\<open>str.isspace\<close> on the code points below 256, as \<^verbatim>\<open>str.strip()\<close> uses it.\<close>

definition py_isspace :: "char \<Rightarrow> bool" where
  "py_isspace c = (c \<in> set [CHR 0x09, CHR 0x0A, CHR 0x0B, CHR 0x0C, CHR 0x0D,
                             CHR 0x1C, CHR 0x1D, CHR 0x1E, CHR 0x1F, CHR 0x20,
                             CHR 0x85, CHR 0xA0])"

definition py_strip :: "string \<Rightarrow> string" where
  "py_strip s = rev (dropWhile py_isspace (rev (dropWhile py_isspace s)))"

definition py_startswith :: "string \<Rightarrow> string \<Rightarrow> bool" where
  "py_startswith s p = (take (length p) s = p)"

text \<open>Index of the first and of the last occurrence of \<open>sub\<close> in a string.\<close>

fun find_idx :: "string \<Rightarrow> string \<Rightarrow> nat option" where
  "find_idx sub [] = (if sub = [] then Some 0 else None)"
| "find_idx sub (c # cs) =
     (if py_startswith (c # cs) sub then Some 0 else map_option Suc (find_idx sub cs))"

fun rfind_idx :: "string \<Rightarrow> string \<Rightarrow> nat option" where
  "rfind_idx sub [] = (if sub = [] then Some 0 else None)"
| "rfind_idx sub (c # cs) =
     (case rfind_idx sub cs of
        Some i \<Rightarrow> Some (Suc i)
      | None \<Rightarrow> (if py_startswith (c # cs) sub then Some 0 else None))"

definition py_find :: "string \<Rightarrow> string \<Rightarrow> int" where
  "py_find s sub = (case find_idx sub s of None \<Rightarrow> - 1 | Some i \<Rightarrow> int i)"

definition py_rfind :: "string \<Rightarrow> string \<Rightarrow> int" where
  "py_rfind s sub = (case rfind_idx sub s of None \<Rightarrow> - 1 | Some i \<Rightarrow> int i)"

text \<open>\<^verbatim>\<open>s[start:end]\<close>: negative bounds count from the end, both are clamped.\<close>

definition slice_bound :: "int \<Rightarrow> nat \<Rightarrow> nat" where
  "slice_bound i n = (if i < 0 then nat (max 0 (i + int n)) else min (nat i) n)"

definition py_slice :: "'a list \<Rightarrow> int \<Rightarrow> int \<Rightarrow> 'a list" where
  "py_slice xs start end =
     (let a = slice_bound start (length xs); b = slice_bound end (length xs)
      in take (b - a) (drop a xs))"

text \<open>
  \<^verbatim>\<open>s.split(sep)\<close>. Every call site passes a literal, non-empty separator; for the
  empty one (a ValueError in Python) the model returns the string unsplit.
\<close>

function py_split :: "string \<Rightarrow> string \<Rightarrow> string list" where
  "py_split s sep =
     (if sep = [] then [s]
      else (case find_idx sep s of
              None \<Rightarrow> [s]
            | Some i \<Rightarrow> take i s # py_split (drop (i + length sep) s) sep))"
  by pat_completeness auto
termination
proof (relation "measure (\<lambda>(s, sep). length s)")
  show "wf (measure (\<lambda>(s, sep). length s))" by simp
next
  fix s sep :: string and i
  assume sep: "sep \<noteq> []" and found: "find_idx sep s = Some i"
  have bound: "find_idx sep t = Some j \<Longrightarrow> j + length sep \<le> length t" for t j
  proof (induction t arbitrary: j)
    case Nil
    then show ?case by (simp split: if_splits)
  next
    case (Cons c cs)
    show ?case
    proof (cases "py_startswith (c # cs) sep")
      case True
      then have "length (take (length sep) (c # cs)) = length sep"
        unfolding py_startswith_def by simp
      then have "length sep \<le> length (c # cs)" by simp
      with True Cons.prems show ?thesis by simp
    next
      case False
      with Cons.prems obtain k where "find_idx sep cs = Some k" "j = Suc k" by auto
      with Cons.IH show ?thesis by auto
    qed
  qed
  from bound [OF found] sep have "i + length sep \<le> length s" "0 < length sep" by auto
  then have "length s - (i + length sep) < length s" by arith
  then have "length (drop (i + length sep) s) < length s" by simp
  then show "((drop (i + length sep) s, sep), (s, sep)) \<in> measure (\<lambda>(s, sep). length s)"
    by simp
qed

declare py_split.simps [simp del]

definition py_index :: "'a list \<Rightarrow> nat \<Rightarrow> exn + 'a" where
  "py_index xs i = (if i < length xs then Inr (xs ! i) else Inl IndexError)"

section \<open>Response cleanup\<close>

text \<open>
  The same lines open the \<^verbatim>\<open>try\<close> block of every method that decodes a reply
  (\<^verbatim>\<open>_assess_complexity\<close>, \<^verbatim>\<open>_generate_tasks\<close>, \<^verbatim>\<open>_extract_findings\<close>,
  \<^verbatim>\<open>_evaluate_source\<close>, \<^verbatim>\<open>_validate_content\<close>): trim, take the text between
  the first pair of fence markers, and, when the text does not open with a brace, cut
  from the first opening brace to the last closing one. \<^verbatim>\<open>_plan_searches\<close> has the
  first two steps only.
\<close>

definition strip_code_fence :: "string \<Rightarrow> exn + string" where
  \<open>strip_code_fence response =
     (if py_startswith response ''```json'' then
        ebind (py_index (py_split response ''```json'') 1) (\<lambda>a.
        ebind (py_index (py_split a ''```'') 0) (\<lambda>b. Inr (py_strip b)))
      else if py_startswith response ''```'' then
        ebind (py_index (py_split response ''```'') 1) (\<lambda>a.
        ebind (py_index (py_split a ''```'') 0) (\<lambda>b. Inr (py_strip b)))
      else Inr response)\<close>

definition extract_object :: "string \<Rightarrow> string" where
  \<open>extract_object response =
     (if \<not> py_startswith response ''{'' then
        (let start = py_find response ''{'';
             end = py_rfind response ''}'' + 1
         in if start \<noteq> - 1 \<and> end > start then py_slice response start end
            else response)
      else response)\<close>

definition clean_fenced_response :: "string \<Rightarrow> exn + string" where
  "clean_fenced_response response = strip_code_fence (py_strip response)"

definition clean_json_response :: "string \<Rightarrow> exn + string" where
  "clean_json_response response =
     ebind (strip_code_fence (py_strip response)) (\<lambda>r. Inr (extract_object r))"

section \<open>Dynamic operations on decoded values\<close>

text \<open>\<^verbatim>\<open>data.get(key, default)\<close>: only a dict has the method.\<close>

definition dict_get :: "json \<Rightarrow> string \<Rightarrow> json \<Rightarrow> exn + json" where
  "dict_get data key dflt =
     (case data of
        JObject kvs \<Rightarrow> Inr (case map_of kvs key of Some v \<Rightarrow> v | None \<Rightarrow> dflt)
      | _ \<Rightarrow> Inl AttributeError)"

text \<open>
  \<^verbatim>\<open>for x in v\<close>: a list yields its elements, a string its characters, a dict its
  keys; anything else is not iterable.
\<close>

definition py_iter :: "json \<Rightarrow> exn + json list" where
  "py_iter v =
     (case v of
        JArray xs \<Rightarrow> Inr xs
      | JString s \<Rightarrow> Inr (map (\<lambda>c. JString [c]) s)
      | JObject kvs \<Rightarrow> Inr (map (\<lambda>(k, _). JString k) kvs)
      | _ \<Rightarrow> Inl TypeError)"

text \<open>\<^verbatim>\<open>key in v\<close> for a string key.\<close>

definition py_contains :: "string \<Rightarrow> json \<Rightarrow> exn + bool" where
  "py_contains key v =
     (case v of
        JObject kvs \<Rightarrow> Inr (map_of kvs key \<noteq> None)
      | JArray xs \<Rightarrow> Inr (JString key \<in> set xs)
      | JString s \<Rightarrow> Inr (\<exists>i \<in> set (upt 0 (Suc (length s))). py_startswith (drop i s) key)
      | _ \<Rightarrow> Inl TypeError)"

text \<open>Lists and dicts are unhashable: they are neither dict keys nor set elements.\<close>

definition hashable :: "json \<Rightarrow> bool" where
  "hashable v = (case v of JArray _ \<Rightarrow> False | JObject _ \<Rightarrow> False | _ \<Rightarrow> True)"

text \<open>Decimal rendering of a natural number, as \<^verbatim>\<open>str\<close> and f-strings print an int.\<close>

fun str_nat :: "nat \<Rightarrow> string" where
  "str_nat n =
     (if n < 10 then [char_of (48 + n)]
      else str_nat (n div 10) @ [char_of (48 + n mod 10)])"

declare str_nat.simps [simp del]

text \<open>\<^verbatim>\<open>sep.join(parts)\<close>.\<close>

fun py_join :: "string \<Rightarrow> string list \<Rightarrow> string" where
  "py_join sep [] = []"
| "py_join sep [x] = x"
| "py_join sep (x # y # ys) = x @ sep @ py_join sep (y # ys)"

section \<open>A decoder for plain JSON texts\<close>

text \<open>
  \<^verbatim>\<open>json.loads\<close> belongs to the standard library. The agents below take the decoder
  as a parameter, so what is proved of them holds for any decoder. The decoder defined
  here reads the texts used at concrete inputs: objects, arrays, strings with the
  one-letter escapes, decimal numbers without exponent, \<^verbatim>\<open>true\<close>, \<^verbatim>\<open>false\<close>,
  \<^verbatim>\<open>null\<close>. A text with a \<^verbatim>\<open>\u\<close> escape, an exponent, or one of Python's
  extra literals \<^verbatim>\<open>NaN\<close> and \<^verbatim>\<open>Infinity\<close> is not in its domain.
  Each nested value, element and member uses one unit of fuel and at least one
  character, so the length of the text plus one is fuel enough.
\<close>

definition json_ws :: "char \<Rightarrow> bool" where
  "json_ws c = (c \<in> set [CHR 0x20, CHR 0x09, CHR 0x0A, CHR 0x0D])"

definition skip_ws :: "string \<Rightarrow> string" where
  "skip_ws s = dropWhile json_ws s"

definition is_digit :: "char \<Rightarrow> bool" where
  "is_digit c = ((48::nat) \<le> of_char c \<and> of_char c \<le> (57::nat))"

definition digits_val :: "string \<Rightarrow> nat" where
  "digits_val ds = foldl (\<lambda>acc c. 10 * acc + (of_char c - 48)) 0 ds"

text \<open>The characters of a string literal after its opening quote, and the rest.\<close>

fun scan_string :: "string \<Rightarrow> (string \<times> string) option" where
  "scan_string [] = None"
| "scan_string (c # cs) =
     (if c = CHR 0x22 then Some ([], cs)
      else if of_char c < (32::nat) then None
      else if c = CHR 0x5C then
        (case cs of
           [] \<Rightarrow> None
         | e # r \<Rightarrow>
             (case map_of [(CHR 0x22, CHR 0x22), (CHR 0x5C, CHR 0x5C), (CHR ''/'', CHR ''/''),
                           (CHR ''b'', CHR 0x08), (CHR ''f'', CHR 0x0C), (CHR ''n'', CHR 0x0A),
                           (CHR ''r'', CHR 0x0D), (CHR ''t'', CHR 0x09)] e of
                None \<Rightarrow> None
              | Some d \<Rightarrow> map_option (\<lambda>(str, rest). (d # str, rest)) (scan_string r)))
      else map_option (\<lambda>(str, rest). (c # str, rest)) (scan_string cs))"

text \<open>A number: optional sign, integer part without leading zero, optional fraction.\<close>

definition scan_number :: "string \<Rightarrow> (json \<times> string) option" where
  "scan_number s =
     (let neg = (s \<noteq> [] \<and> hd s = CHR ''-'');
          s1 = (if neg then tl s else s);
          ip = takeWhile is_digit s1;
          r1 = dropWhile is_digit s1
      in if ip = [] \<or> (length ip > 1 \<and> hd ip = CHR ''0'') then None
         else if r1 \<noteq> [] \<and> hd r1 = CHR ''.'' then
           (let fp = takeWhile is_digit (tl r1); r2 = dropWhile is_digit (tl r1)
            in if fp = [] \<or> (r2 \<noteq> [] \<and> hd r2 \<in> set ''eE'') then None
               else Some (JFloat ((if neg then - 1 else 1) * (of_nat (digits_val ip)
                                   + of_nat (digits_val fp) / 10 ^ length fp)), r2))
         else if r1 \<noteq> [] \<and> hd r1 \<in> set ''eE'' then None
         else Some (JInt ((if neg then - 1 else 1) * int (digits_val ip)), r1))"

text \<open>A repeated key keeps its first position and takes the last value.\<close>

fun dict_set :: "string \<Rightarrow> json \<Rightarrow> (string \<times> json) list \<Rightarrow> (string \<times> json) list" where
  "dict_set k v [] = [(k, v)]"
| "dict_set k v ((k', v') # kvs) =
     (if k = k' then (k, v) # kvs else (k', v') # dict_set k v kvs)"

definition dict_of_pairs :: "(string \<times> json) list \<Rightarrow> (string \<times> json) list" where
  "dict_of_pairs ps = foldl (\<lambda>d (k, v). dict_set k v d) [] ps"

fun parse_value :: "nat \<Rightarrow> string \<Rightarrow> (json \<times> string) option"
  and parse_elements :: "nat \<Rightarrow> string \<Rightarrow> (json list \<times> string) option"
  and parse_members :: "nat \<Rightarrow> string \<Rightarrow> ((string \<times> json) list \<times> string) option"
where
  "parse_value 0 s = None"
| "parse_value (Suc n) s =
     (case skip_ws s of
        [] \<Rightarrow> None
      | c # r \<Rightarrow>
          if c = CHR ''{'' then
            (case skip_ws r of
               [] \<Rightarrow> None
             | d # r' \<Rightarrow>
                 if d = CHR ''}'' then Some (JObject [], r')
                 else map_option (\<lambda>(ps, rest). (JObject (dict_of_pairs ps), rest))
                        (parse_members n r))
          else if c = CHR ''['' then
            (case skip_ws r of
               [] \<Rightarrow> None
             | d # r' \<Rightarrow>
                 if d = CHR '']'' then Some (JArray [], r')
                 else map_option (\<lambda>(vs, rest). (JArray vs, rest)) (parse_elements n r))
          else if c = CHR 0x22 then
            map_option (\<lambda>(str, rest). (JString str, rest)) (scan_string r)
          else if py_startswith (c # r) ''true'' then Some (JBool True, drop 4 (c # r))
          else if py_startswith (c # r) ''false'' then Some (JBool False, drop 5 (c # r))
          else if py_startswith (c # r) ''null'' then Some (JNull, drop 4 (c # r))
          else scan_number (c # r))"
| "parse_elements 0 s = None"
| "parse_elements (Suc n) s =
     (case parse_value n s of
        None \<Rightarrow> None
      | Some (v, r) \<Rightarrow>
          (case skip_ws r of
             [] \<Rightarrow> None
           | c # r' \<Rightarrow>
               if c = CHR '','' then
                 map_option (\<lambda>(vs, rest). (v # vs, rest)) (parse_elements n r')
               else if c = CHR '']'' then Some ([v], r')
               else None))"
| "parse_members 0 s = None"
| "parse_members (Suc n) s =
     (case skip_ws s of
        [] \<Rightarrow> None
      | q # r \<Rightarrow>
          if q \<noteq> CHR 0x22 then None
          else
            (case scan_string r of
               None \<Rightarrow> None
             | Some (k, r1) \<Rightarrow>
                 (case skip_ws r1 of
                    [] \<Rightarrow> None
                  | c # r2 \<Rightarrow>
                      if c \<noteq> CHR '':'' then None
                      else
                        (case parse_value n r2 of
                           None \<Rightarrow> None
                         | Some (v, r3) \<Rightarrow>
                             (case skip_ws r3 of
                                [] \<Rightarrow> None
                              | d # r4 \<Rightarrow>
                                  if d = CHR '','' then
                                    map_option (\<lambda>(ps, rest). ((k, v) # ps, rest))
                                      (parse_members n r4)
                                  else if d = CHR ''}'' then Some ([(k, v)], r4)
                                  else None)))))"

definition plain_json_loads :: "string \<Rightarrow> json option" where
  "plain_json_loads s =
     (case parse_value (Suc (length s)) s of
        None \<Rightarrow> None
      | Some (v, rest) \<Rightarrow> if skip_ws rest = [] then Some v else None)"

section \<open>The agent contract\<close>

text \<open>
  \<^verbatim>\<open>Agent.call_llm\<close> posts one request to the language-model service and appends the
  prompt and the reply to the agent's conversation history. The service is a function
  from the request to the reply text or to the exception the HTTP exchange raises
  (\<^verbatim>\<open>aiohttp.ClientError\<close>, or a \<^verbatim>\<open>KeyError\<close> on a reply of another shape).
\<close>

record message =
  msg_role :: string
  msg_content :: string

record request =
  req_model :: string
  req_max_tokens :: nat
  req_temperature :: rat
  req_system :: string
  req_messages :: "message list"

type_synonym service = "request \<Rightarrow> exn + string"

text \<open>A search tool: its provider, its key and its timeout in seconds.\<close>

datatype tool = WebSearchTool string "string option" nat

record agent =
  name :: string
  role :: string
  model :: string
  temperature :: rat
  max_tokens :: nat
  api_key :: "string option"
  conversation_history :: "message list"
  tools :: "(string \<times> tool) list"

text \<open>
  The process environment maps variable names to values. \<^verbatim>\<open>Agent.__init__\<close> takes
  the key from its argument or, failing that, from the environment.
\<close>

type_synonym environ = "string \<Rightarrow> string option"

definition agent_init ::
  "environ \<Rightarrow> string \<Rightarrow> string \<Rightarrow> string \<Rightarrow> rat \<Rightarrow> nat \<Rightarrow> string option \<Rightarrow> agent" where
  "agent_init env nm rl mdl temp maxtok key =
     \<lparr>name = nm, role = rl, model = mdl, temperature = temp, max_tokens = maxtok,
      api_key = (case key of
                   None \<Rightarrow> env ''ANTHROPIC_API_KEY''
                 | Some k \<Rightarrow> if k = [] then env ''ANTHROPIC_API_KEY'' else Some k),
      conversation_history = [], tools = []\<rparr>"

definition register_tool :: "'a agent_scheme \<Rightarrow> string \<Rightarrow> tool \<Rightarrow> 'a agent_scheme" where
  "register_tool self nm t = self\<lparr>tools := AList.update nm t (tools self)\<rparr>"

text \<open>The payload \<^verbatim>\<open>call_llm\<close> posts: the last ten messages of the history, then the prompt.\<close>

definition llm_request ::
  "'a agent_scheme \<Rightarrow> string \<Rightarrow> string option \<Rightarrow> rat option \<Rightarrow> nat option \<Rightarrow> request" where
  "llm_request self prompt system_prompt temp maxtok =
     (let system = (case system_prompt of None \<Rightarrow> role self | Some s \<Rightarrow> s);
          history = py_slice (conversation_history self) (- 10)
                      (int (length (conversation_history self)));
          messages = history @ [\<lparr>msg_role = ''user'', msg_content = prompt\<rparr>]
      in \<lparr>req_model = model self,
          req_max_tokens =
            (case maxtok of None \<Rightarrow> max_tokens self
             | Some m \<Rightarrow> if m = 0 then max_tokens self else m),
          req_temperature =
            (case temp of None \<Rightarrow> temperature self
             | Some t \<Rightarrow> if t = 0 then temperature self else t),
          req_system = system,
          req_messages = messages\<rparr>)"

definition call_llm ::
  "service \<Rightarrow> 'a agent_scheme \<Rightarrow> string \<Rightarrow> string option \<Rightarrow> rat option \<Rightarrow> nat option
     \<Rightarrow> (exn + string) \<times> 'a agent_scheme" where
  "call_llm svc self prompt system_prompt temp maxtok =
     (if api_key self = None \<or> api_key self = Some [] then (Inl ValueError, self)
      else
        (case svc (llm_request self prompt system_prompt temp maxtok) of
           Inl e \<Rightarrow> (Inl e, self)
         | Inr content \<Rightarrow>
             (Inr content,
              self\<lparr>conversation_history := conversation_history self @
                 [\<lparr>msg_role = ''user'', msg_content = prompt\<rparr>,
                  \<lparr>msg_role = ''assistant'', msg_content = content\<rparr>]\<rparr>)))"

section \<open>Planner\<close>

record research_task =
  task_id :: json
  task_description :: json
  task_agent :: json
  task_tools :: json
  task_dependencies :: json
  task_priority :: json

text \<open>
  \<^verbatim>\<open>list(set(...))\<close> fixes no order, so the two derived requirement lists of a plan
  are kept as sets.
\<close>

record research_plan =
  plan_query :: string
  plan_complexity :: json
  plan_tasks :: "research_task list"
  estimated_duration :: string
  agents_needed :: "json set"
  tools_needed :: "json set"

definition planner_role :: string where
  \<open>planner_role =
     ''You are an expert research planner. Your job is to:\<newline>'' @
     ''1. Analyze research queries for complexity and requirements\<newline>'' @
     ''2. Break complex queries into manageable sub-tasks\<newline>'' @
     ''3. Identify which agents and tools are needed for each task\<newline>'' @
     ''4. Determine task dependencies and optimal execution order\<newline>'' @
     ''5. Estimate time and resources required\<newline>'' @
     ''\<newline>Consider:\<newline>'' @
     ''- Query scope (narrow vs broad)\<newline>'' @
     ''- Information types needed (facts, analysis, comparisons)\<newline>'' @
     ''- Data sources required (web, academic, code execution)\<newline>'' @
     ''- Logical dependencies between tasks''\<close>

definition planner_init :: "environ \<Rightarrow> agent" where
  "planner_init env =
     agent_init env ''Planner'' planner_role ''claude-sonnet-4-20250514'' (3 / 10) 2000 None"

definition assess_complexity_prompt :: "string \<Rightarrow> string" where
  \<open>assess_complexity_prompt query =
     ''\<newline>Analyze this research query for complexity:\<newline>'' @
     ''\<newline>Query: '' @
     query @
     ''\<newline>\<newline>'' @
     ''Assess complexity based on:\<newline>'' @
     ''- Scope (narrow topic vs broad field)\<newline>'' @
     ''- Depth (surface facts vs deep analysis)\<newline>'' @
     ''- Multiple sub-questions vs single question\<newline>'' @
     ''- Requires comparison/synthesis vs simple lookup\<newline>'' @
     ''\<newline>Respond in JSON:\<newline>'' @
     ''{\<newline>    "complexity": "simple|moderate|complex",\<newline>'' @
     ''    "reasoning": "brief explanation"\<newline>'' @
     ''}\<newline>\<newline>'' @
     ''Examples:\<newline>'' @
     ''- "What is Python?" = simple\<newline>'' @
     ''- "Compare Python vs Java for web development" = moderate\<newline>'' @
     ''- "Analyze the evolution of programming languages and predict future trends" = complex\<newline>''\<close>

text \<open>
  The \<^verbatim>\<open>try\<close> block of \<^verbatim>\<open>_assess_complexity\<close>: only a decoding failure is caught;
  the value under \<^verbatim>\<open>"complexity"\<close> is returned as decoded.
\<close>

definition assess_complexity_try :: "(string \<Rightarrow> json option) \<Rightarrow> string \<Rightarrow> exn + json" where
  "assess_complexity_try loads response =
     ebind (clean_json_response response) (\<lambda>r.
       case loads r of
         None \<Rightarrow> Inr (JString ''moderate'')
       | Some data \<Rightarrow> dict_get data ''complexity'' (JString ''moderate''))"

definition assess_complexity ::
  "service \<Rightarrow> (string \<Rightarrow> json option) \<Rightarrow> agent \<Rightarrow> string \<Rightarrow> (exn + json) \<times> agent" where
  "assess_complexity svc loads self query =
     (case call_llm svc self (assess_complexity_prompt query) None (Some (2 / 10)) (Some 300) of
        (Inl e, self') \<Rightarrow> (Inl e, self')
      | (Inr response, self') \<Rightarrow> (assess_complexity_try loads response, self'))"

text \<open>The lookup \<^verbatim>\<open>{"simple": 2, "moderate": 4, "complex": 6}[complexity]\<close>.\<close>

definition max_tasks_of :: "json \<Rightarrow> exn + nat" where
  "max_tasks_of complexity =
     (if \<not> hashable complexity then Inl TypeError
      else case complexity of
             JString s \<Rightarrow>
               (case map_of [(''simple'', 2), (''moderate'', 4), (''complex'', 6)] s of
                  Some n \<Rightarrow> Inr n
                | None \<Rightarrow> Inl KeyError)
           | _ \<Rightarrow> Inl KeyError)"

definition generate_tasks_prompt :: "string \<Rightarrow> string \<Rightarrow> nat \<Rightarrow> string" where
  \<open>generate_tasks_prompt query complexity max_tasks =
     ''\<newline>Create a research plan for this query:\<newline>'' @
     ''\<newline>Query: '' @
     query @
     ''\<newline>Complexity: '' @
     complexity @
     ''\<newline>\<newline>'' @
     ''Break this into '' @
     str_nat max_tasks @
     '' or fewer concrete research tasks.\<newline>'' @
     ''\<newline>Available agents:\<newline>'' @
     ''- researcher: Web search, information gathering\<newline>'' @
     ''- validator: Source credibility, fact checking\<newline>'' @
     ''- synthesizer: Combining findings, report generation\<newline>'' @
     ''- code_executor: Python code execution, calculations\<newline>'' @
     ''- api_agent: External API calls\<newline>'' @
     ''\<newline>Available tools:\<newline>'' @
     ''- web_search: Search the web\<newline>'' @
     ''- wikipedia: Wikipedia lookup\<newline>'' @
     ''- arxiv: Academic papers\<newline>'' @
     ''- calculator: Math calculations\<newline>'' @
     ''- code_executor: Run Python code\<newline>'' @
     ''- api_call: Call external APIs\<newline>'' @
     ''\<newline>For each task specify:\<newline>'' @
     ''- description (clear, specific)\<newline>'' @
     ''- agent (which agent handles this)\<newline>'' @
     ''- tools (which tools needed)\<newline>'' @
     ''- dependencies (which task IDs must complete first, empty array if none)\<newline>'' @
     ''- priority (high/medium/low)\<newline>'' @
     ''\<newline>Respond in JSON:\<newline>'' @
     ''{\<newline>    "tasks": [\<newline>'' @
     ''        {\<newline>'' @
     ''            "id": 1,\<newline>'' @
     ''            "description": "Search for basic information about X",\<newline>'' @
     ''            "agent": "researcher",\<newline>'' @
     ''            "tools": ["web_search"],\<newline>'' @
     ''            "dependencies": [],\<newline>'' @
     ''            "priority": "high"\<newline>'' @
     ''        },\<newline>'' @
     ''        {\<newline>'' @
     ''            "id": 2,\<newline>'' @
     ''            "description": "Validate sources from task 1",\<newline>'' @
     ''            "agent": "validator",\<newline>'' @
     ''            "tools": [],\<newline>'' @
     ''            "dependencies": [1],\<newline>'' @
     ''            "priority": "medium"\<newline>'' @
     ''        }\<newline>'' @
     ''    ]\<newline>'' @
     ''}\<newline>''\<close>

text \<open>One \<^verbatim>\<open>ResearchTask\<close> from an element of the decoded task list.\<close>

definition make_task :: "json \<Rightarrow> nat \<Rightarrow> exn + research_task" where
  "make_task t n =
     ebind (dict_get t ''id'' (JInt (int n + 1))) (\<lambda>i.
     ebind (dict_get t ''description'' (JString [])) (\<lambda>d.
     ebind (dict_get t ''agent'' (JString ''researcher'')) (\<lambda>a.
     ebind (dict_get t ''tools'' (JArray [])) (\<lambda>ts.
     ebind (dict_get t ''dependencies'' (JArray [])) (\<lambda>deps.
     ebind (dict_get t ''priority'' (JString ''medium'')) (\<lambda>p.
       Inr \<lparr>task_id = i, task_description = d, task_agent = a, task_tools = ts,
            task_dependencies = deps, task_priority = p\<rparr>))))))"

fun build_tasks :: "json list \<Rightarrow> research_task list \<Rightarrow> exn + research_task list" where
  "build_tasks [] tasks = Inr tasks"
| "build_tasks (t # ts) tasks =
     ebind (make_task t (length tasks)) (\<lambda>task. build_tasks ts (tasks @ [task]))"

definition fallback_task :: "string \<Rightarrow> research_task" where
  "fallback_task query =
     \<lparr>task_id = JInt 1, task_description = JString (''Research: '' @ query),
      task_agent = JString ''researcher'', task_tools = JArray [JString ''web_search''],
      task_dependencies = JArray [], task_priority = JString ''high''\<rparr>"

text \<open>The \<^verbatim>\<open>try\<close> block of \<^verbatim>\<open>_generate_tasks\<close>, with its one handler.\<close>

definition generate_tasks_try ::
  "(string \<Rightarrow> json option) \<Rightarrow> string \<Rightarrow> string \<Rightarrow> exn + research_task list" where
  "generate_tasks_try loads query response =
     ebind (clean_json_response response) (\<lambda>r.
       case loads r of
         None \<Rightarrow> Inr [fallback_task query]
       | Some data \<Rightarrow>
           ebind (dict_get data ''tasks'' (JArray [])) (\<lambda>ts.
           ebind (py_iter ts) (\<lambda>items. build_tasks items [])))"

definition generate_tasks ::
  "service \<Rightarrow> (string \<Rightarrow> json option) \<Rightarrow> agent \<Rightarrow> string \<Rightarrow> json
     \<Rightarrow> (exn + research_task list) \<times> agent" where
  "generate_tasks svc loads self query complexity =
     (case max_tasks_of complexity of
        Inl e \<Rightarrow> (Inl e, self)
      | Inr max_tasks \<Rightarrow>
          (case call_llm svc self
                  (generate_tasks_prompt query
                     (case complexity of JString s \<Rightarrow> s | _ \<Rightarrow> []) max_tasks)
                  None (Some (3 / 10)) (Some 1000) of
             (Inl e, self') \<Rightarrow> (Inl e, self')
           | (Inr response, self') \<Rightarrow> (generate_tasks_try loads query response, self')))"

text \<open>
  \<^verbatim>\<open>_estimate_duration\<close>: the base time is looked up with \<^verbatim>\<open>dict.get\<close>, which
  needs a hashable key and falls back to 30.
\<close>

definition estimate_duration :: "research_task list \<Rightarrow> json \<Rightarrow> exn + string" where
  "estimate_duration tasks complexity =
     (if \<not> hashable complexity then Inl TypeError
      else
        (let base = (case complexity of
                       JString s \<Rightarrow>
                         (case map_of [(''simple'', 15), (''moderate'', 30), (''complex'', 60)] s of
                            Some b \<Rightarrow> b
                          | None \<Rightarrow> 30)
                     | _ \<Rightarrow> 30);
             task_time = length tasks * 10;
             total = base + task_time
         in Inr (if total < (30::nat) then ''15-30 seconds''
                 else if total < 60 then ''30-60 seconds''
                 else if total < 120 then ''1-2 minutes''
                 else ''2-5 minutes'')))"

text \<open>
  The two set comprehensions of \<^verbatim>\<open>plan\<close>: every agent and every tool must be
  hashable, and every \<^verbatim>\<open>tools\<close> field iterable.
\<close>

definition collect_agents :: "research_task list \<Rightarrow> exn + json set" where
  "collect_agents tasks =
     (if \<forall>t \<in> set tasks. hashable (task_agent t) then Inr (task_agent ` set tasks)
      else Inl TypeError)"

fun collect_tools :: "research_task list \<Rightarrow> exn + json set" where
  "collect_tools [] = Inr {}"
| "collect_tools (t # ts) =
     ebind (py_iter (task_tools t)) (\<lambda>xs.
       if \<forall>x \<in> set xs. hashable x
       then ebind (collect_tools ts) (\<lambda>rest. Inr (set xs \<union> rest))
       else Inl TypeError)"

definition plan ::
  "service \<Rightarrow> (string \<Rightarrow> json option) \<Rightarrow> agent \<Rightarrow> string \<Rightarrow> (exn + research_plan) \<times> agent" where
  "plan svc loads self query =
     (case assess_complexity svc loads self query of
        (Inl e, s1) \<Rightarrow> (Inl e, s1)
      | (Inr complexity, s1) \<Rightarrow>
          (case generate_tasks svc loads s1 query complexity of
             (Inl e, s2) \<Rightarrow> (Inl e, s2)
           | (Inr tasks, s2) \<Rightarrow>
               (ebind (collect_agents tasks) (\<lambda>agents.
                ebind (collect_tools tasks) (\<lambda>tls.
                ebind (estimate_duration tasks complexity) (\<lambda>duration.
                  Inr \<lparr>plan_query = query, plan_complexity = complexity, plan_tasks = tasks,
                       estimated_duration = duration,
                       agents_needed = agents, tools_needed = tls\<rparr>))), s2)))"

section \<open>Researcher\<close>

record research_finding =
  finding_title :: json
  finding_content :: json
  finding_source :: json
  finding_url :: json
  finding_relevance :: json
  finding_key_points :: json

record search_result =
  sr_title :: string
  sr_url :: string
  sr_snippet :: string
  sr_source :: string
  sr_published_date :: "string option"
  sr_relevance_score :: "rat option"

record researcher_agent = agent +
  max_searches :: int

definition researcher_role :: string where
  \<open>researcher_role =
     ''You are an expert research agent. Your job is to:\<newline>'' @
     ''1. Understand research queries and break them down if needed\<newline>'' @
     ''2. Search for relevant, high-quality information\<newline>'' @
     ''3. Extract key facts and insights\<newline>'' @
     ''4. Cite sources properly\<newline>'' @
     ''5. Assess the quality and relevance of information\<newline>'' @
     ''\<newline>Always prioritize:\<newline>'' @
     ''- Accuracy over speed\<newline>'' @
     ''- Quality sources (academic, official, reputable)\<newline>'' @
     ''- Recent information when relevant\<newline>'' @
     ''- Multiple perspectives when appropriate''\<close>

definition researcher_init :: "environ \<Rightarrow> int \<Rightarrow> researcher_agent" where
  "researcher_init env m =
     agent.extend
       (agent_init env ''Researcher'' researcher_role ''claude-sonnet-4-20250514'' (3 / 10) 2000 None)
       (researcher_agent.fields m)"

definition plan_searches_prompt :: "(json \<Rightarrow> string) \<Rightarrow> string \<Rightarrow> json \<Rightarrow> string" where
  \<open>plan_searches_prompt dumps query context =
     ''\<newline>Research query: '' @
     query @
     ''\<newline>\<newline>'' @
     ''Context: '' @
     dumps context @
     ''\<newline>\<newline>'' @
     ''Generate 1-3 specific search queries that will help answer this research question.\<newline>'' @
     ''Make queries:\<newline>'' @
     ''- Specific and targeted\<newline>'' @
     ''- Diverse to cover different angles\<newline>'' @
     ''- Optimized for web search (2-6 words each)\<newline>'' @
     ''\<newline>Respond in JSON format:\<newline>'' @
     ''{\<newline>    "queries": ["query1", "query2", "query3"],\<newline>'' @
     ''    "reasoning": "why these queries will be effective"\<newline>'' @
     ''}\<newline>''\<close>

text \<open>
  \<^verbatim>\<open>queries[:n]\<close> on a decoded value. A dict cannot be sliced (a TypeError, and a
  KeyError from Python 3.12 on).
\<close>

definition slice_upto :: "json \<Rightarrow> int \<Rightarrow> exn + json" where
  "slice_upto v n =
     (case v of
        JArray xs \<Rightarrow> Inr (JArray (py_slice xs 0 n))
      | JString s \<Rightarrow> Inr (JString (py_slice s 0 n))
      | _ \<Rightarrow> Inl TypeError)"

text \<open>
  The \<^verbatim>\<open>try\<close> block of \<^verbatim>\<open>_plan_searches\<close>: the cleanup stops after the fence
  markers; a decoding failure gives the query itself.
\<close>

definition plan_searches_try ::
  "(string \<Rightarrow> json option) \<Rightarrow> int \<Rightarrow> string \<Rightarrow> string \<Rightarrow> exn + json" where
  "plan_searches_try loads n query response =
     ebind (clean_fenced_response response) (\<lambda>r.
       case loads r of
         None \<Rightarrow> Inr (JArray [JString query])
       | Some data \<Rightarrow>
           ebind (dict_get data ''queries'' (JArray [JString query])) (\<lambda>queries.
             slice_upto queries n))"

definition plan_searches ::
  "service \<Rightarrow> (string \<Rightarrow> json option) \<Rightarrow> (json \<Rightarrow> string) \<Rightarrow> researcher_agent \<Rightarrow> string \<Rightarrow> json
     \<Rightarrow> (exn + json) \<times> researcher_agent" where
  "plan_searches svc loads dumps self query context =
     (case call_llm svc self (plan_searches_prompt dumps query context) None
             (Some (3 / 10)) (Some 500) of
        (Inl e, self') \<Rightarrow> (Inl e, self')
      | (Inr response, self') \<Rightarrow>
          (plan_searches_try loads (max_searches self') query response, self'))"

text \<open>The numbered block of search results that opens the extraction prompt.\<close>

definition format_result :: "nat \<Rightarrow> search_result \<Rightarrow> string" where
  \<open>format_result i result =
     ''['' @ str_nat i @ ''] '' @ sr_title result @ ''\<newline>'' @
     ''Source: '' @ sr_source result @ ''\<newline>'' @
     ''URL: '' @ sr_url result @ ''\<newline>'' @
     ''Content: '' @ sr_snippet result @ ''\<newline>''\<close>

definition format_results :: "search_result list \<Rightarrow> string" where
  "format_results search_results =
     py_join [CHR 0x0A]
       (map (\<lambda>(i, result). format_result i result)
          (zip (upt 1 (Suc (length search_results))) search_results))"

definition extract_findings_prompt :: "string \<Rightarrow> string \<Rightarrow> string" where
  \<open>extract_findings_prompt query results_text =
     ''\<newline>Research query: '' @
     query @
     ''\<newline>\<newline>'' @
     ''Search results:\<newline>'' @
     results_text @
     ''\<newline>\<newline>'' @
     ''Extract the most relevant and important findings from these search results.\<newline>'' @
     ''For each finding:\<newline>'' @
     ''1. Summarize the key information\<newline>'' @
     ''2. Extract 2-4 key points\<newline>'' @
     ''3. Assess relevance (High/Medium/Low)\<newline>'' @
     ''4. Cite the source\<newline>'' @
     ''\<newline>Focus on:\<newline>'' @
     ''- Direct answers to the query\<newline>'' @
     ''- Important context and background\<newline>'' @
     ''- Different perspectives if available\<newline>'' @
     ''- Recent developments\<newline>'' @
     ''\<newline>'' @
     ''You MUST respond with ONLY valid JSON in this exact format (no other text):\<newline>'' @
     ''{\<newline>    "findings": [\<newline>'' @
     ''        {\<newline>'' @
     ''            "title": "Finding title",\<newline>'' @
     ''            "content": "2-3 sentence summary",\<newline>'' @
     ''            "source": "source name",\<newline>'' @
     ''            "url": "source url",\<newline>'' @
     ''            "relevance": "High",\<newline>'' @
     ''            "key_points": ["point 1", "point 2", "point 3"]\<newline>'' @
     ''        }\<newline>'' @
     ''    ]\<newline>'' @
     ''}\<newline>\<newline>'' @
     ''Include 3-5 most relevant findings.\<newline>''\<close>

definition make_finding :: "json \<Rightarrow> exn + research_finding" where
  "make_finding f =
     ebind (dict_get f ''title'' (JString ''Untitled'')) (\<lambda>t.
     ebind (dict_get f ''content'' (JString [])) (\<lambda>c.
     ebind (dict_get f ''source'' (JString ''Unknown'')) (\<lambda>s.
     ebind (dict_get f ''url'' (JString [])) (\<lambda>u.
     ebind (dict_get f ''relevance'' (JString ''Medium'')) (\<lambda>r.
     ebind (dict_get f ''key_points'' (JArray [])) (\<lambda>k.
       Inr \<lparr>finding_title = t, finding_content = c, finding_source = s, finding_url = u,
            finding_relevance = r, finding_key_points = k\<rparr>))))))"

fun make_findings :: "json list \<Rightarrow> exn + research_finding list" where
  "make_findings [] = Inr []"
| "make_findings (f # fs) =
     ebind (make_finding f) (\<lambda>x. ebind (make_findings fs) (\<lambda>xs. Inr (x # xs)))"

text \<open>
  The body of the \<^verbatim>\<open>try\<close> block of \<^verbatim>\<open>_extract_findings\<close>, and the block with
  its two handlers: a decoding failure and any other exception both give the empty list.
\<close>

definition extract_findings_body ::
  "(string \<Rightarrow> json option) \<Rightarrow> string \<Rightarrow> exn + research_finding list" where
  "extract_findings_body loads response =
     ebind (clean_json_response response) (\<lambda>r.
       case loads r of
         None \<Rightarrow> Inl JSONDecodeError
       | Some data \<Rightarrow>
           ebind (py_contains ''findings'' data) (\<lambda>present.
             if \<not> present then Inr []
             else ebind (dict_get data ''findings'' (JArray [])) (\<lambda>fs.
                  ebind (py_iter fs) make_findings)))"

definition extract_findings_try ::
  "(string \<Rightarrow> json option) \<Rightarrow> string \<Rightarrow> research_finding list" where
  "extract_findings_try loads response =
     (case extract_findings_body loads response of
        Inl JSONDecodeError \<Rightarrow> []
      | Inl _ \<Rightarrow> []
      | Inr findings \<Rightarrow> findings)"

definition extract_findings ::
  "service \<Rightarrow> (string \<Rightarrow> json option) \<Rightarrow> researcher_agent \<Rightarrow> string \<Rightarrow> search_result list
     \<Rightarrow> (exn + research_finding list) \<times> researcher_agent" where
  "extract_findings svc loads self query search_results =
     (if search_results = [] then (Inr [], self)
      else
        (case call_llm svc self
                (extract_findings_prompt query (format_results search_results))
                None (Some (3 / 10)) (Some 2000) of
           (Inl e, self') \<Rightarrow> (Inl e, self')
         | (Inr response, self') \<Rightarrow> (Inr (extract_findings_try loads response), self')))"

definition assess_confidence :: "research_finding list \<Rightarrow> string" where
  "assess_confidence findings =
     (if findings = [] then ''Low''
      else
        (let high_relevance =
               length (filter (\<lambda>f. finding_relevance f = JString ''High'') findings)
         in if length findings \<ge> 3 \<and> high_relevance \<ge> 2 then ''High''
            else if length findings \<ge> 2 then ''Medium''
            else ''Low''))"

section \<open>Validator\<close>

record source_evaluation =
  se_source :: json
  se_credibility_score :: rat
  se_source_type :: json
  se_strengths :: json
  se_concerns :: json

record validation_result =
  vr_is_valid :: json
  vr_credibility_score :: rat
  vr_issues :: json
  vr_warnings :: json
  vr_reasoning :: json

text \<open>
  One entry of the list \<^verbatim>\<open>validate_findings\<close> returns; the three \<^verbatim>\<open>to_dict\<close>
  copies are kept as the records they copy.
\<close>

record validated_finding =
  original_finding :: research_finding
  source_evaluation :: source_evaluation
  content_validation :: validation_result
  overall_credibility :: rat

definition validator_role :: string where
  \<open>validator_role =
     ''You are an expert fact-checker and source evaluator. Your job is to:\<newline>'' @
     ''1. Assess the credibility of sources (academic > government > reputable news > commercial)\<newline>'' @
     ''2. Identify potential biases or conflicts of interest\<newline>'' @
     ''3. Cross-reference claims when possible\<newline>'' @
     ''4. Flag inconsistencies or questionable information\<newline>'' @
     ''5. Provide objective credibility scores\<newline>'' @
     ''\<newline>Be thorough but fair. Consider:\<newline>'' @
     ''- Source reputation and expertise\<newline>'' @
     ''- Potential biases or motivations\<newline>'' @
     ''- Consistency with known facts\<newline>'' @
     ''- Quality of evidence presented\<newline>'' @
     ''- Recency and relevance''\<close>

definition validator_init :: "environ \<Rightarrow> agent" where
  "validator_init env =
     agent_init env ''Validator'' validator_role ''claude-haiku-4-5-20251001'' (1 / 10) 2000 None"

text \<open>
  An f-string prints a \<^verbatim>\<open>str\<close> as it is and any other value as \<^verbatim>\<open>str()\<close>
  renders it; that rendering is a parameter. \<^verbatim>\<open>float()\<close> converts a number or a
  truth value, parses a string (the parser is a parameter; \<open>None\<close> is its ValueError),
  and rejects the rest; an int beyond the double range overflows.
\<close>

definition fstr :: "(json \<Rightarrow> string) \<Rightarrow> json \<Rightarrow> string" where
  "fstr render v = (case v of JString s \<Rightarrow> s | _ \<Rightarrow> render v)"

definition py_float :: "(string \<Rightarrow> rat option) \<Rightarrow> json \<Rightarrow> exn + rat" where
  "py_float float_of_str v =
     (case v of
        JFloat q \<Rightarrow> Inr q
      | JInt i \<Rightarrow> if \<bar>i\<bar> < 2 ^ 1024 - 2 ^ 970 then Inr (of_int i) else Inl OverflowError
      | JBool b \<Rightarrow> Inr (if b then 1 else 0)
      | JString s \<Rightarrow> (case float_of_str s of None \<Rightarrow> Inl ValueError | Some q \<Rightarrow> Inr q)
      | _ \<Rightarrow> Inl TypeError)"

definition evaluate_source_prompt :: "(json \<Rightarrow> string) \<Rightarrow> json \<Rightarrow> json \<Rightarrow> string" where
  \<open>evaluate_source_prompt render source url =
     ''\<newline>Evaluate the credibility of this source:\<newline>'' @
     ''\<newline>Source: '' @
     fstr render source @
     ''\<newline>URL: '' @
     fstr render url @
     ''\<newline>\<newline>'' @
     ''Assess:\<newline>'' @
     ''1. Source type (Academic, Government, News, Commercial, Blog, Social Media, Unknown)\<newline>'' @
     ''2. Overall credibility (0.0 to 1.0 scale)\<newline>'' @
     ''3. Strengths (2-3 points about why this source might be trustworthy)\<newline>'' @
     ''4. Concerns (1-3 points about potential issues or biases)\<newline>'' @
     ''\<newline>Consider:\<newline>'' @
     ''- Is this a peer-reviewed academic source? (very high credibility)\<newline>'' @
     ''- Is this a government or official organization? (high credibility)\<newline>'' @
     ''- Is this established, reputable news? (medium-high credibility)\<newline>'' @
     ''- Is this commercial or promotional content? (lower credibility)\<newline>'' @
     ''- Are there potential conflicts of interest?\<newline>'' @
     ''\<newline>Respond in JSON format only:\<newline>'' @
     ''{\<newline>'' @
     ''    "source_type": "Academic|Government|News|Commercial|Blog|Unknown",\<newline>'' @
     ''    "credibility_score": 0.85,\<newline>'' @
     ''    "strengths": ["point 1", "point 2"],\<newline>'' @
     ''    "concerns": ["concern 1"]\<newline>'' @
     ''}\<newline>''\<close>

definition evaluate_source_body ::
  "(string \<Rightarrow> json option) \<Rightarrow> (string \<Rightarrow> rat option) \<Rightarrow> json \<Rightarrow> string
     \<Rightarrow> exn + source_evaluation" where
  "evaluate_source_body loads float_of_str source response =
     ebind (clean_json_response response) (\<lambda>r.
       case loads r of
         None \<Rightarrow> Inl JSONDecodeError
       | Some data \<Rightarrow>
           ebind (dict_get data ''credibility_score'' (JFloat (5 / 10))) (\<lambda>sc.
           ebind (py_float float_of_str sc) (\<lambda>score.
           ebind (dict_get data ''source_type'' (JString ''Unknown'')) (\<lambda>ty.
           ebind (dict_get data ''strengths'' (JArray [])) (\<lambda>st.
           ebind (dict_get data ''concerns'' (JArray [])) (\<lambda>co.
             Inr \<lparr>se_source = source, se_credibility_score = score, se_source_type = ty,
                  se_strengths = st, se_concerns = co\<rparr>))))))"

definition default_source_evaluation :: "json \<Rightarrow> source_evaluation" where
  "default_source_evaluation source =
     \<lparr>se_source = source, se_credibility_score = 3 / 10, se_source_type = JString ''Unknown'',
      se_strengths = JArray [],
      se_concerns = JArray [JString ''Unable to verify source credibility'']\<rparr>"

text \<open>The handler takes a decoding failure and a ValueError; the rest propagates.\<close>

definition evaluate_source_try ::
  "(string \<Rightarrow> json option) \<Rightarrow> (string \<Rightarrow> rat option) \<Rightarrow> json \<Rightarrow> string
     \<Rightarrow> exn + source_evaluation" where
  "evaluate_source_try loads float_of_str source response =
     (case evaluate_source_body loads float_of_str source response of
        Inl JSONDecodeError \<Rightarrow> Inr (default_source_evaluation source)
      | Inl ValueError \<Rightarrow> Inr (default_source_evaluation source)
      | Inl e \<Rightarrow> Inl e
      | Inr ev \<Rightarrow> Inr ev)"

definition evaluate_source ::
  "service \<Rightarrow> (string \<Rightarrow> json option) \<Rightarrow> (json \<Rightarrow> string) \<Rightarrow> (string \<Rightarrow> rat option) \<Rightarrow> agent
     \<Rightarrow> json \<Rightarrow> json \<Rightarrow> (exn + source_evaluation) \<times> agent" where
  "evaluate_source svc loads render float_of_str self source url =
     (case call_llm svc self (evaluate_source_prompt render source url) None
             (Some (1 / 10)) (Some 500) of
        (Inl e, self') \<Rightarrow> (Inl e, self')
      | (Inr response, self') \<Rightarrow>
          (evaluate_source_try loads float_of_str source response, self'))"

definition validate_content_prompt ::
  "(json \<Rightarrow> string) \<Rightarrow> json \<Rightarrow> json list \<Rightarrow> json \<Rightarrow> string" where
  \<open>validate_content_prompt render content points source =
     ''\<newline>Validate this content for accuracy and reliability:\<newline>'' @
     ''\<newline>Content: '' @
     fstr render content @
     ''\<newline>\<newline>'' @
     ''Key Points:\<newline>'' @
     py_join [CHR 0x0A] (map (\<lambda>point. ''- '' @ fstr render point) points) @
     ''\<newline>\<newline>'' @
     ''Source: '' @
     fstr render source @
     ''\<newline>\<newline>'' @
     ''Assess:\<newline>'' @
     ''1. Are there any obvious factual errors or inconsistencies?\<newline>'' @
     ''2. Does the content make exaggerated or unsupported claims?\<newline>'' @
     ''3. Is the language objective or does it show clear bias?\<newline>'' @
     ''4. Are the key points accurately extracted?\<newline>'' @
     ''5. Overall content credibility (0.0 to 1.0)\<newline>'' @
     ''\<newline>Respond in JSON format only:\<newline>'' @
     ''{\<newline>    "is_valid": true,\<newline>'' @
     ''    "credibility_score": 0.8,\<newline>'' @
     ''    "issues": ["any serious problems"],\<newline>'' @
     ''    "warnings": ["minor concerns"],\<newline>'' @
     ''    "reasoning": "brief explanation of assessment"\<newline>'' @
     ''}\<newline>''\<close>

definition validate_content_body ::
  "(string \<Rightarrow> json option) \<Rightarrow> (string \<Rightarrow> rat option) \<Rightarrow> string \<Rightarrow> exn + validation_result" where
  "validate_content_body loads float_of_str response =
     ebind (clean_json_response response) (\<lambda>r.
       case loads r of
         None \<Rightarrow> Inl JSONDecodeError
       | Some data \<Rightarrow>
           ebind (dict_get data ''is_valid'' (JBool True)) (\<lambda>valid.
           ebind (dict_get data ''credibility_score'' (JFloat (5 / 10))) (\<lambda>sc.
           ebind (py_float float_of_str sc) (\<lambda>score.
           ebind (dict_get data ''issues'' (JArray [])) (\<lambda>iss.
           ebind (dict_get data ''warnings'' (JArray [])) (\<lambda>w.
           ebind (dict_get data ''reasoning'' (JString [])) (\<lambda>re.
             Inr \<lparr>vr_is_valid = valid, vr_credibility_score = score, vr_issues = iss,
                  vr_warnings = w, vr_reasoning = re\<rparr>)))))))"

definition default_validation_result :: validation_result where
  "default_validation_result =
     \<lparr>vr_is_valid = JBool True, vr_credibility_score = 5 / 10, vr_issues = JArray [],
      vr_warnings = JArray [JString ''Unable to fully validate content''],
      vr_reasoning = JString []\<rparr>"

definition validate_content_try ::
  "(string \<Rightarrow> json option) \<Rightarrow> (string \<Rightarrow> rat option) \<Rightarrow> string \<Rightarrow> exn + validation_result" where
  "validate_content_try loads float_of_str response =
     (case validate_content_body loads float_of_str response of
        Inl JSONDecodeError \<Rightarrow> Inr default_validation_result
      | Inl ValueError \<Rightarrow> Inr default_validation_result
      | Inl e \<Rightarrow> Inl e
      | Inr v \<Rightarrow> Inr v)"

text \<open>The key points are iterated while the prompt is built, before the call.\<close>

definition validate_content ::
  "service \<Rightarrow> (string \<Rightarrow> json option) \<Rightarrow> (json \<Rightarrow> string) \<Rightarrow> (string \<Rightarrow> rat option) \<Rightarrow> agent
     \<Rightarrow> json \<Rightarrow> json \<Rightarrow> json \<Rightarrow> (exn + validation_result) \<times> agent" where
  "validate_content svc loads render float_of_str self content key_points source =
     (case py_iter key_points of
        Inl e \<Rightarrow> (Inl e, self)
      | Inr points \<Rightarrow>
          (case call_llm svc self (validate_content_prompt render content points source) None
                  (Some (1 / 10)) (Some 500) of
             (Inl e, self') \<Rightarrow> (Inl e, self')
           | (Inr response, self') \<Rightarrow>
               (validate_content_try loads float_of_str response, self')))"

text \<open>
  The body of the loop of \<^verbatim>\<open>validate_findings\<close> for one finding, and the loop with
  the list built so far.
\<close>

definition validate_one ::
  "service \<Rightarrow> (string \<Rightarrow> json option) \<Rightarrow> (json \<Rightarrow> string) \<Rightarrow> (string \<Rightarrow> rat option) \<Rightarrow> agent
     \<Rightarrow> research_finding \<Rightarrow> (exn + validated_finding) \<times> agent" where
  "validate_one svc loads render float_of_str self finding =
     (case evaluate_source svc loads render float_of_str self
             (finding_source finding) (finding_url finding) of
        (Inl e, s1) \<Rightarrow> (Inl e, s1)
      | (Inr source_eval, s1) \<Rightarrow>
          (case validate_content svc loads render float_of_str s1
                  (finding_content finding) (finding_key_points finding)
                  (finding_source finding) of
             (Inl e, s2) \<Rightarrow> (Inl e, s2)
           | (Inr content_val, s2) \<Rightarrow>
               (Inr \<lparr>original_finding = finding,
                     source_evaluation = source_eval,
                     content_validation = content_val,
                     overall_credibility =
                       se_credibility_score source_eval * (6 / 10) +
                       vr_credibility_score content_val * (4 / 10)\<rparr>, s2)))"

fun validate_loop ::
  "service \<Rightarrow> (string \<Rightarrow> json option) \<Rightarrow> (json \<Rightarrow> string) \<Rightarrow> (string \<Rightarrow> rat option) \<Rightarrow> agent
     \<Rightarrow> research_finding list \<Rightarrow> validated_finding list
     \<Rightarrow> (exn + validated_finding list) \<times> agent" where
  "validate_loop svc loads render float_of_str self [] validated = (Inr validated, self)"
| "validate_loop svc loads render float_of_str self (finding # rest) validated =
     (case validate_one svc loads render float_of_str self finding of
        (Inl e, s) \<Rightarrow> (Inl e, s)
      | (Inr validated_finding, s) \<Rightarrow>
          validate_loop svc loads render float_of_str s rest (validated @ [validated_finding]))"

definition validate_findings ::
  "service \<Rightarrow> (string \<Rightarrow> json option) \<Rightarrow> (json \<Rightarrow> string) \<Rightarrow> (string \<Rightarrow> rat option) \<Rightarrow> agent
     \<Rightarrow> research_finding list \<Rightarrow> (exn + validated_finding list) \<times> agent" where
  "validate_findings svc loads render float_of_str self findings =
     validate_loop svc loads render float_of_str self findings []"

section \<open>Orchestrator\<close>

definition synthesizer_role :: string where
  \<open>synthesizer_role =
     ''You are an expert research synthesizer. Your job is to:\<newline>'' @
     ''1. Combine information from multiple sources into coherent narratives\<newline>'' @
     ''2. Identify key patterns, themes, and insights across findings\<newline>'' @
     ''3. Highlight agreements and disagreements between sources\<newline>'' @
     ''4. Acknowledge limitations and uncertainties\<newline>'' @
     ''5. Create clear, well-structured reports\<newline>'' @
     ''\<newline>Always:\<newline>'' @
     ''- Synthesize rather than just summarize\<newline>'' @
     ''- Draw connections between different findings\<newline>'' @
     ''- Present multiple perspectives fairly\<newline>'' @
     ''- Be clear about confidence levels\<newline>'' @
     ''- Write in clear, professional prose''\<close>

definition synthesizer_init :: "environ \<Rightarrow> agent" where
  "synthesizer_init env =
     agent_init env ''Synthesizer'' synthesizer_role ''claude-sonnet-4-20250514'' (5 / 10) 2000 None"

text \<open>\<^verbatim>\<open>str.upper\<close> on the ASCII letters, which is what a provider name is made of.\<close>

definition py_upper :: "string \<Rightarrow> string" where
  "py_upper s =
     map (\<lambda>c. if (97::nat) \<le> of_char c \<and> of_char c \<le> (122::nat)
               then char_of (of_char c - (32::nat)) else c) s"

text \<open>\<^verbatim>\<open>WebSearchTool.__init__\<close>: a paid provider without a key is refused.\<close>

definition web_search_tool_init :: "environ \<Rightarrow> string \<Rightarrow> exn + tool" where
  "web_search_tool_init env provider =
     (let key = env (py_upper provider @ ''_API_KEY'')
      in if provider \<in> set [''tavily'', ''serper''] \<and> (key = None \<or> key = Some [])
         then Inl ValueError
         else Inr (WebSearchTool provider key 10))"

record orchestrator =
  use_validation :: bool
  search_tool :: tool
  researcher :: researcher_agent
  validator :: "agent option"
  synthesizer :: agent

text \<open>\<^verbatim>\<open>ResearchOrchestrator.__init__\<close>.\<close>

definition orchestrator_init :: "environ \<Rightarrow> string \<Rightarrow> bool \<Rightarrow> int \<Rightarrow> exn + orchestrator" where
  "orchestrator_init env search_provider use_val m =
     ebind (web_search_tool_init env search_provider) (\<lambda>t.
       Inr \<lparr>use_validation = use_val,
            search_tool = t,
            researcher = register_tool (researcher_init env m) ''web_search'' t,
            validator = (if use_val then Some (validator_init env) else None),
            synthesizer = synthesizer_init env\<rparr>)"

text \<open>
  \<^verbatim>\<open>research\<close> first sets the researcher's search budget from \<open>depth\<close>, then runs
  the stages (research, optional validation, synthesis, optional saving) on the
  orchestrator so adjusted. The stages are a parameter: they are the rest of the method.
\<close>

definition research ::
  "(orchestrator \<Rightarrow> string \<Rightarrow> string \<Rightarrow> bool \<Rightarrow> string \<Rightarrow> (exn + 'r) \<times> orchestrator)
     \<Rightarrow> orchestrator \<Rightarrow> string \<Rightarrow> string \<Rightarrow> bool \<Rightarrow> string \<Rightarrow> (exn + 'r) \<times> orchestrator" where
  "research stages self query depth save_results output_prefix =
     (let self' =
            (if depth = ''quick''
             then self\<lparr>researcher := (researcher self)\<lparr>max_searches := 1\<rparr>\<rparr>
             else self\<lparr>researcher := (researcher self)\<lparr>max_searches := 3\<rparr>\<rparr>)
      in stages self' query depth save_results output_prefix)"

text \<open>
  \<^verbatim>\<open>research_parallel\<close> gathers one run per query with \<^verbatim>\<open>return_exceptions=True\<close>,
  so each run hands back its result or the exception it raised. \<open>run\<close> gives the
  outcome of the run for a query; the interleaving of the runs is not modelled. The
  method returns the results and writes the failure count to the log.
\<close>

datatype log_record = LogInfo string | LogWarning string

definition research_parallel ::
  "(string \<Rightarrow> string \<Rightarrow> exn + 'r) \<Rightarrow> string list \<Rightarrow> string \<Rightarrow> 'r list \<times> log_record list" where
  "research_parallel run queries depth =
     (let results = map (\<lambda>query. run query depth) queries;
          valid_results = concat (map (\<lambda>r. case r of Inr x \<Rightarrow> [x] | Inl _ \<Rightarrow> []) results);
          failed_count = length results - length valid_results
      in (valid_results,
          [LogInfo (''Starting parallel research on '' @ str_nat (length queries) @ '' queries'')] @
          (if failed_count > 0
           then [LogWarning (str_nat failed_count @ '' queries failed'')] else []) @
          [LogInfo (''Parallel research complete: '' @ str_nat (length valid_results) @
                    '' succeeded'')]))"

section \<open>Properties and concrete inputs\<close>

text \<open>
  The decoded structure of a reply: the cleanup lines followed by the decoder, as the
  \<^verbatim>\<open>try\<close> blocks begin, in the full form and in that of \<^verbatim>\<open>_plan_searches\<close>.
  \<open>None\<close> stands for the decoder's JSONDecodeError.
\<close>

definition parse_response :: "(string \<Rightarrow> json option) \<Rightarrow> string \<Rightarrow> exn + json option" where
  "parse_response loads response = ebind (clean_json_response response) (\<lambda>r. Inr (loads r))"

definition parse_fenced_response ::
  "(string \<Rightarrow> json option) \<Rightarrow> string \<Rightarrow> exn + json option" where
  "parse_fenced_response loads response =
     ebind (clean_fenced_response response) (\<lambda>r. Inr (loads r))"

definition decode_fails :: "(string \<Rightarrow> json option) \<Rightarrow> string \<Rightarrow> bool" where
  "decode_fails loads response = (parse_response loads response = Inr None)"


text \<open>The text contains the substring.\<close>

definition contains :: "string \<Rightarrow> string \<Rightarrow> bool" where
  "contains s sub = (find_idx sub s \<noteq> None)"

text \<open>
  Plan validity as the specification words it: the dependency ids of a task are the
  elements of its \<^verbatim>\<open>dependencies\<close> field, and each of them is the id of a task of
  the same list.
\<close>

definition dependency_ids :: "research_task \<Rightarrow> json list" where
  "dependency_ids t = (case py_iter (task_dependencies t) of Inr ds \<Rightarrow> ds | Inl _ \<Rightarrow> [])"

definition deps_resolved :: "research_task list \<Rightarrow> bool" where
  "deps_resolved tasks =
     list_all (\<lambda>t. list_all (\<lambda>d. d \<in> set (map task_id tasks)) (dependency_ids t)) tasks"

text \<open>The task entries a reply lists, when it decodes to a dict with an iterable list.\<close>

definition replied_tasks :: "(string \<Rightarrow> json option) \<Rightarrow> string \<Rightarrow> json list option" where
  "replied_tasks loads response =
     (case parse_response loads response of
        Inr (Some data) \<Rightarrow>
          (case ebind (dict_get data ''tasks'' (JArray [])) py_iter of
             Inr items \<Rightarrow> Some items
           | Inl _ \<Rightarrow> None)
      | _ \<Rightarrow> None)"

text \<open>A service whose reply does not depend on the conversation history it is sent.\<close>

definition ignores_history :: "service \<Rightarrow> bool" where
  "ignores_history svc =
     (\<forall>req. svc req = svc (req\<lparr>req_messages := [last (req_messages req)]\<rparr>))"

text \<open>Concrete services, environment and library functions for the examples.\<close>

definition fixed_reply :: "string \<Rightarrow> service" where
  "fixed_reply r = (\<lambda>req. Inr r)"

definition env_with_key :: environ where
  "env_with_key = (\<lambda>v. if v = ''ANTHROPIC_API_KEY'' then Some ''sk-test'' else None)"

text \<open>
  \<^verbatim>\<open>str()\<close> of \<^verbatim>\<open>None\<close>, of a truth value and of an int; the examples render nothing
  else (a float, a list and a dict are outside this function's domain).
\<close>

definition atom_str :: "json \<Rightarrow> string" where
  "atom_str v =
     (case v of
        JNull \<Rightarrow> ''None''
      | JBool b \<Rightarrow> (if b then ''True'' else ''False'')
      | JInt i \<Rightarrow> (if i < 0 then ''-'' @ str_nat (nat (- i)) else str_nat (nat i))
      | JString s \<Rightarrow> s
      | _ \<Rightarrow> [])"

text \<open>\<^verbatim>\<open>float()\<close> on the plain decimal numerals; a word such as \<^verbatim>\<open>high\<close> is rejected.\<close>

definition plain_float_of_str :: "string \<Rightarrow> rat option" where
  "plain_float_of_str s =
     (case scan_number (py_strip s) of
        Some (JInt i, []) \<Rightarrow> Some (of_int i)
      | Some (JFloat q, []) \<Rightarrow> Some q
      | _ \<Rightarrow> None)"

text \<open>
  A service swayed by the conversation: it rates every source as it rates the source
  that the first message it is sent names after the \<^verbatim>\<open>Source:\<close> label of the
  evaluation prompt, which is trusted when it is \<^verbatim>\<open>nature.com\<close>.
\<close>

definition named_source :: "string \<Rightarrow> string" where
  "named_source first_message = takeWhile (\<lambda>c. c \<noteq> CHR 0x0A) (drop 51 first_message)"

definition swayed_text :: "string \<Rightarrow> string" where
  \<open>swayed_text first_message =
     (if named_source first_message = ''nature.com''
      then ''{"credibility_score": 0.9}'' else ''{"credibility_score": 0.1}'')\<close>

definition history_swayed_reply :: service where
  "history_swayed_reply req = Inr (swayed_text (msg_content (hd (req_messages req))))"

definition finding_of_source :: "string \<Rightarrow> research_finding" where
  "finding_of_source src =
     \<lparr>finding_title = JString ''T'', finding_content = JString ''C'',
      finding_source = JString src, finding_url = JString (''https://'' @ src),
      finding_relevance = JString ''High'', finding_key_points = JArray [JString ''p'']\<rparr>"

text \<open>Stages that only report the search budget they are run with.\<close>

definition report_budget ::
  "orchestrator \<Rightarrow> string \<Rightarrow> string \<Rightarrow> bool \<Rightarrow> string \<Rightarrow> (exn + int) \<times> orchestrator" where
  "report_budget self query depth save_results output_prefix =
     (Inr (max_searches (researcher self)), self)"

text \<open>
  The number of runs of a batch that raise, and a run that raises for one query.
\<close>

definition failed_runs :: "(string \<Rightarrow> string \<Rightarrow> exn + 'r) \<Rightarrow> string list \<Rightarrow> string \<Rightarrow> nat" where
  "failed_runs run queries depth = length (filter (\<lambda>q. isl (run q depth)) queries)"

definition flaky_run :: "string \<Rightarrow> string \<Rightarrow> exn + string" where
  "flaky_run query depth = (if query = ''q3'' then Inl ClientError else Inr (''report on '' @ query))"

text \<open>A reply that lists three tasks, the first depending on a task 7 that is not listed.\<close>

definition overfull_reply :: string where
  \<open>overfull_reply = ''{"tasks": [{"id": 1, "dependencies": [7]}, {"id": 2}, {"id": 3}]}''\<close>

definition plain_task :: "int \<Rightarrow> json list \<Rightarrow> research_task" where
  "plain_task i deps =
     \<lparr>task_id = JInt i, task_description = JString [], task_agent = JString ''researcher'',
      task_tools = JArray [], task_dependencies = JArray deps,
      task_priority = JString ''medium''\<rparr>"

text \<open>One search result, as the search tool returns it.\<close>

definition sample_result :: search_result where
  "sample_result =
     \<lparr>sr_title = ''AI'', sr_url = ''https://example.org/ai'', sr_snippet = ''About AI.'',
      sr_source = ''example.org'', sr_published_date = None, sr_relevance_score = None\<rparr>"

text \<open>
  A payload wrapped in fence markers, with and without the language tag, and a text that
  opens with a brace and closes with one.
\<close>

definition fence_json :: "string \<Rightarrow> string" where
  \<open>fence_json P = ''```json\<newline>'' @ P @ ''\<newline>```''\<close>

definition fence_plain :: "string \<Rightarrow> string" where
  \<open>fence_plain P = ''```\<newline>'' @ P @ ''\<newline>```''\<close>

definition object_text :: "string \<Rightarrow> bool" where
  \<open>object_text P = (py_startswith P ''{'' \<and> P \<noteq> [] \<and> last P = CHR ''}'')\<close>

section \<open>The cleanup never raises\<close>

lemma py_split_nonempty: "py_split s sep \<noteq> []"
  by (subst py_split.simps) (simp split: option.split)

lemma find_idx_startswith: "py_startswith s sep \<Longrightarrow> find_idx sep s = Some 0"
  by (cases s) (auto simp: py_startswith_def)

lemma py_split_startswith:
  assumes "sep \<noteq> []" "py_startswith s sep"
  shows "Suc 0 < length (py_split s sep)"
proof -
  have "py_split s sep = take 0 s # py_split (drop (0 + length sep) s) sep"
    using assms by (subst py_split.simps) (simp add: find_idx_startswith)
  then show ?thesis
    using py_split_nonempty [of "drop (0 + length sep) s" sep]
    by (cases "py_split (drop (0 + length sep) s) sep") auto
qed

lemma py_index_ok: "i < length xs \<Longrightarrow> py_index xs i = Inr (xs ! i)"
  by (simp add: py_index_def)

lemma strip_code_fence_total: "\<exists>r. strip_code_fence s = Inr r"
proof -
  have z: "\<And>a sep. py_index (py_split a sep) 0 = Inr (py_split a sep ! 0)"
    using py_split_nonempty by (simp add: py_index_def)
  show ?thesis
    unfolding strip_code_fence_def
    by (auto simp: ebind_def z py_index_ok py_split_startswith)
qed

lemma clean_json_response_total: "\<exists>r. clean_json_response s = Inr r"
  using strip_code_fence_total [of "py_strip s"]
  by (auto simp: clean_json_response_def ebind_def)

section \<open>Researcher confidence\<close>

text \<open>
  C9. \<^verbatim>\<open>_assess_confidence\<close> is a function of the findings alone (it takes neither
  the service nor the agent): High when there are at least three findings of which at
  least two have relevance High, otherwise Medium when there are at least two, otherwise
  Low. Four findings of relevance High give High, no finding gives Low, and two findings
  of any relevance give Medium.
\<close>

theorem assess_confidence_rule:
  "assess_confidence findings =
     (if length findings \<ge> 3 \<and>
         length (filter (\<lambda>f. finding_relevance f = JString ''High'') findings) \<ge> 2
      then ''High''
      else if length findings \<ge> 2 then ''Medium'' else ''Low'')
   \<and> (length findings = 4 \<and> list_all (\<lambda>f. finding_relevance f = JString ''High'') findings
        \<longrightarrow> assess_confidence findings = ''High'')
   \<and> (findings = [] \<longrightarrow> assess_confidence findings = ''Low'')
   \<and> (length findings = 2 \<longrightarrow> assess_confidence findings = ''Medium'')"
proof -
  have rule: "assess_confidence findings =
     (if length findings \<ge> 3 \<and>
         length (filter (\<lambda>f. finding_relevance f = JString ''High'') findings) \<ge> 2
      then ''High''
      else if length findings \<ge> 2 then ''Medium'' else ''Low'')"
    by (cases findings) (simp_all add: assess_confidence_def Let_def)
  have four: "assess_confidence findings = ''High''"
    if "length findings = 4" "list_all (\<lambda>f. finding_relevance f = JString ''High'') findings"
  proof -
    from that(2) have "filter (\<lambda>f. finding_relevance f = JString ''High'') findings = findings"
      by (simp add: list_all_iff)
    with that(1) show ?thesis by (simp add: rule)
  qed
  have empty: "findings = [] \<longrightarrow> assess_confidence findings = ''Low''"
    by (simp add: assess_confidence_def)
  have two: "length findings = 2 \<longrightarrow> assess_confidence findings = ''Medium''"
    by (simp add: rule)
  from rule four empty two show ?thesis by blast
qed

theorem assess_confidence_rule_witness:
  "assess_confidence (replicate 4 (finding_of_source ''a.org'')) = ''High''
   \<and> assess_confidence [] = ''Low''
   \<and> assess_confidence [finding_of_source ''a.org'', finding_of_source ''b.org''] = ''Medium''"
  using assess_confidence_rule [of "replicate 4 (finding_of_source ''a.org'')"]
        assess_confidence_rule [of "[]"]
        assess_confidence_rule [of "[finding_of_source ''a.org'', finding_of_source ''b.org'']"]
  by (simp add: finding_of_source_def)

section \<open>Parallel batches\<close>

lemma valid_results_length:
  "length (concat (map (\<lambda>r. case r of Inr x \<Rightarrow> [x] | Inl _ \<Rightarrow> []) rs))
     = length rs - length (filter isl rs)"
proof (induction rs)
  case Nil
  show ?case by simp
next
  case (Cons r rs)
  have "length (filter isl rs) \<le> length rs" by simp
  with Cons show ?case by (cases r) (auto simp: Suc_diff_le)
qed

text \<open>
  C3. For every batch, \<^verbatim>\<open>research_parallel\<close> returns (it is a total function of the
  runs' outcomes, so no exception of a run leaves it) exactly the results of the runs
  that did not raise, in the order of their queries: with N queries of which k raise,
  the returned list has length N - k, and when k is positive the log carries the warning
  that k queries failed.
\<close>

theorem research_parallel_isolates_failures:
  "length (fst (research_parallel run queries depth))
      = length queries - failed_runs run queries depth
   \<and> fst (research_parallel run queries depth)
      = map (\<lambda>q. projr (run q depth)) (filter (\<lambda>q. \<not> isl (run q depth)) queries)
   \<and> (0 < failed_runs run queries depth \<longrightarrow>
        LogWarning (str_nat (failed_runs run queries depth) @ '' queries failed'')
          \<in> set (snd (research_parallel run queries depth)))"
proof -
  let ?rs = "map (\<lambda>q. run q depth) queries"
  let ?k = "failed_runs run queries depth"
  have flt: "length (filter isl ?rs) = ?k"
    by (simp add: failed_runs_def filter_map comp_def)
  have len: "length (concat (map (\<lambda>r. case r of Inr x \<Rightarrow> [x] | Inl _ \<Rightarrow> []) ?rs))
      = length queries - ?k"
    using valid_results_length [of ?rs] flt by simp
  have kle: "?k \<le> length queries" by (simp add: failed_runs_def)
  have vals: "concat (map (\<lambda>r. case r of Inr x \<Rightarrow> [x] | Inl _ \<Rightarrow> []) (map (\<lambda>q. run q depth) qs))
      = map (\<lambda>q. projr (run q depth)) (filter (\<lambda>q. \<not> isl (run q depth)) qs)" for qs
    by (induction qs) (auto split: sum.splits)
  have cnt: "length ?rs - length (concat (map (\<lambda>r. case r of Inr x \<Rightarrow> [x] | Inl _ \<Rightarrow> []) ?rs))
      = ?k"
    using len kle by simp
  show ?thesis
    unfolding research_parallel_def Let_def fst_conv snd_conv
    using len vals [of queries] cnt by simp
qed

theorem research_parallel_isolates_failures_witness:
  "failed_runs flaky_run [''q1'', ''q2'', ''q3'', ''q4'', ''q5''] ''quick'' = 1
   \<and> length (fst (research_parallel flaky_run [''q1'', ''q2'', ''q3'', ''q4'', ''q5''] ''quick'')) = 4
   \<and> LogWarning ''1 queries failed''
        \<in> set (snd (research_parallel flaky_run [''q1'', ''q2'', ''q3'', ''q4'', ''q5''] ''quick''))"
proof -
  let ?qs = "[''q1'', ''q2'', ''q3'', ''q4'', ''q5'']"
  have k: "failed_runs flaky_run ?qs ''quick'' = 1"
    by (simp add: failed_runs_def flaky_run_def)
  have one: "str_nat 1 = ''1''" by code_simp
  note main = research_parallel_isolates_failures [of flaky_run ?qs "''quick''"]
  from main have "length (fst (research_parallel flaky_run ?qs ''quick''))
      = length ?qs - failed_runs flaky_run ?qs ''quick''" by (rule conjunct1)
  then have len: "length (fst (research_parallel flaky_run ?qs ''quick'')) = 4"
    unfolding k by simp
  from main have "0 < failed_runs flaky_run ?qs ''quick'' \<longrightarrow>
      LogWarning (str_nat (failed_runs flaky_run ?qs ''quick'') @ '' queries failed'')
        \<in> set (snd (research_parallel flaky_run ?qs ''quick''))" by blast
  then have warn: "LogWarning ''1 queries failed''
      \<in> set (snd (research_parallel flaky_run ?qs ''quick''))"
    unfolding k one by simp
  from k len warn show ?thesis by blast
qed

section \<open>Calls to the service\<close>

lemma call_llm_cases:
  assumes "call_llm svc self prompt sp t m = (r, self')"
  shows "(\<exists>e. r = Inl e \<and> self' = self) \<or>
     (\<exists>content. r = Inr content \<and>
        self' = self\<lparr>conversation_history := conversation_history self @
                    [\<lparr>msg_role = ''user'', msg_content = prompt\<rparr>,
                     \<lparr>msg_role = ''assistant'', msg_content = content\<rparr>]\<rparr>)"
proof (cases "api_key self = None \<or> api_key self = Some []")
  case True
  then have "call_llm svc self prompt sp t m = (Inl ValueError, self)"
    by (simp add: call_llm_def)
  with assms have "r = Inl ValueError" "self' = self" by simp_all
  then show ?thesis by blast
next
  case False
  show ?thesis
  proof (cases "svc (llm_request self prompt sp t m)")
    case (Inl e)
    with False have "call_llm svc self prompt sp t m = (Inl e, self)"
      by (auto simp: call_llm_def)
    with assms have "r = Inl e" "self' = self" by simp_all
    then show ?thesis by blast
  next
    case (Inr c)
    with False have "call_llm svc self prompt sp t m =
        (Inr c, self\<lparr>conversation_history := conversation_history self @
                    [\<lparr>msg_role = ''user'', msg_content = prompt\<rparr>,
                     \<lparr>msg_role = ''assistant'', msg_content = c\<rparr>]\<rparr>)"
      by (auto simp: call_llm_def)
    with assms have "r = Inr c" "self' = self\<lparr>conversation_history := conversation_history self @
                    [\<lparr>msg_role = ''user'', msg_content = prompt\<rparr>,
                     \<lparr>msg_role = ''assistant'', msg_content = c\<rparr>]\<rparr>" by simp_all
    then show ?thesis by blast
  qed
qed

lemma call_llm_fixed_reply:
  "api_key self = Some k \<Longrightarrow> k \<noteq> [] \<Longrightarrow>
   call_llm (fixed_reply r) self prompt sp t m =
     (Inr r, self\<lparr>conversation_history := conversation_history self @
                    [\<lparr>msg_role = ''user'', msg_content = prompt\<rparr>,
                     \<lparr>msg_role = ''assistant'', msg_content = r\<rparr>]\<rparr>)"
  by (simp add: call_llm_def fixed_reply_def)

section \<open>Planner: tiers and fallback\<close>

lemma max_tasks_of_unknown:
  "s \<notin> {''simple'', ''moderate'', ''complex''} \<Longrightarrow> max_tasks_of (JString s) = Inl KeyError"
  by (simp add: max_tasks_of_def hashable_def)

lemma trivial_reply:
  \<open>assess_complexity_try plain_json_loads ''{"complexity": "trivial"}'' = Inr (JString ''trivial'')\<close>
  by code_simp

lemma env_key: "api_key (planner_init env_with_key) = Some ''sk-test''"
  by (simp add: planner_init_def agent_init_def env_with_key_def)

lemma generate_tasks_unknown:
  "s \<notin> {''simple'', ''moderate'', ''complex''} \<Longrightarrow>
     generate_tasks svc loads self query (JString s) = (Inl KeyError, self)"
  by (simp add: generate_tasks_def max_tasks_of_unknown)

lemma plan_unknown:
  "s \<notin> {''simple'', ''moderate'', ''complex''} \<Longrightarrow>
   assess_complexity svc loads self query = (Inr (JString s), self') \<Longrightarrow>
     plan svc loads self query = (Inl KeyError, self')"
  by (simp add: plan_def generate_tasks_unknown)

text \<open>
  C10. \<^verbatim>\<open>_assess_complexity\<close> returns the decoded value under \<^verbatim>\<open>"complexity"\<close>
  unchecked. For a tier string outside simple, moderate and complex, \<^verbatim>\<open>_generate_tasks\<close>
  raises KeyError at the ceiling lookup, before any call, and \<^verbatim>\<open>plan\<close> ends with that
  KeyError instead of a Plan. The reply \<^verbatim>\<open>{"complexity": "trivial"}\<close> is such a service
  output.
\<close>

theorem unknown_tier_raises_key_error:
  \<open>(s \<notin> {''simple'', ''moderate'', ''complex''} \<longrightarrow>
      generate_tasks svc loads self query (JString s) = (Inl KeyError, self)
      \<and> (assess_complexity svc loads self query = (Inr (JString s), self')
           \<longrightarrow> plan svc loads self query = (Inl KeyError, self')))
   \<and> fst (assess_complexity (fixed_reply ''{"complexity": "trivial"}'') plain_json_loads
             (planner_init env_with_key) query) = Inr (JString ''trivial'')
   \<and> fst (plan (fixed_reply ''{"complexity": "trivial"}'') plain_json_loads
             (planner_init env_with_key) query) = Inl KeyError\<close>
proof -
  have ac: \<open>\<exists>a. assess_complexity (fixed_reply ''{"complexity": "trivial"}'')
      plain_json_loads (planner_init env_with_key) query = (Inr (JString ''trivial''), a)\<close>
    unfolding assess_complexity_def
    by (simp add: call_llm_fixed_reply [OF env_key] trivial_reply)
  then obtain a where a: \<open>assess_complexity (fixed_reply ''{"complexity": "trivial"}'')
      plain_json_loads (planner_init env_with_key) query = (Inr (JString ''trivial''), a)\<close> ..
  have out: "''trivial'' \<notin> {''simple'', ''moderate'', ''complex''}" by simp
  have p: \<open>fst (plan (fixed_reply ''{"complexity": "trivial"}'') plain_json_loads
             (planner_init env_with_key) query) = Inl KeyError\<close>
    using plan_unknown [OF out a] by simp
  from a have q: \<open>fst (assess_complexity (fixed_reply ''{"complexity": "trivial"}'') plain_json_loads
             (planner_init env_with_key) query) = Inr (JString ''trivial'')\<close> by simp
  show ?thesis
    using p q generate_tasks_unknown [of s svc loads self query]
          plan_unknown [of s svc loads self query self'] by blast
qed

theorem unknown_tier_raises_key_error_witness:
  \<open>generate_tasks (fixed_reply ''{"complexity": "trivial"}'') plain_json_loads
       (planner_init env_with_key) ''What is AI?'' (JString ''trivial'')
     = (Inl KeyError, planner_init env_with_key)
   \<and> fst (plan (fixed_reply ''{"complexity": "trivial"}'') plain_json_loads
             (planner_init env_with_key) ''What is AI?'') = Inl KeyError\<close>
  using unknown_tier_raises_key_error
          [of "''trivial''" \<open>fixed_reply ''{"complexity": "trivial"}''\<close> plain_json_loads
              "planner_init env_with_key" "''What is AI?''"]
  by simp

lemma decode_failsD:
  "decode_fails loads response \<Longrightarrow> \<exists>r. clean_json_response response = Inr r \<and> loads r = None"
  unfolding decode_fails_def parse_response_def ebind_def
  by (cases "clean_json_response response") auto

lemma generate_tasks_try_fallback:
  "decode_fails loads response \<Longrightarrow>
     generate_tasks_try loads query response = Inr [fallback_task query]"
  by (auto dest!: decode_failsD simp: generate_tasks_try_def ebind_def)

text \<open>
  C5, as amended. For every query and every tier of the ceiling table, when the reply
  to the task request fails to decode, \<^verbatim>\<open>_generate_tasks\<close> returns exactly one task:
  the fallback covering the whole query, assigned to the researcher, with no
  dependencies.
\<close>

theorem fallback_on_decode_failure:
  assumes tier: "max_tasks_of complexity = Inr n"
    and call: "call_llm svc self
                 (generate_tasks_prompt query (case complexity of JString s \<Rightarrow> s | _ \<Rightarrow> []) n)
                 None (Some (3 / 10)) (Some 1000) = (Inr response, self')"
    and fail: "decode_fails loads response"
  shows "generate_tasks svc loads self query complexity = (Inr [fallback_task query], self')
    \<and> task_description (fallback_task query) = JString (''Research: '' @ query)
    \<and> task_agent (fallback_task query) = JString ''researcher''
    \<and> dependency_ids (fallback_task query) = []"
proof -
  have "generate_tasks svc loads self query complexity
          = (generate_tasks_try loads query response, self')"
    using tier call by (simp add: generate_tasks_def)
  with fail show ?thesis
    by (simp add: generate_tasks_try_fallback fallback_task_def dependency_ids_def py_iter_def)
qed

lemma simple_tier: "max_tasks_of (JString ''simple'') = Inr 2"
  by (simp add: max_tasks_of_def hashable_def)

lemma not_json_fails: "decode_fails plain_json_loads ''I cannot plan this.''"
  by code_simp

theorem fallback_on_decode_failure_witness:
  "generate_tasks (fixed_reply ''I cannot plan this.'') plain_json_loads
      (planner_init env_with_key) ''What is AI?'' (JString ''simple'')
    = (Inr [fallback_task ''What is AI?''],
       snd (call_llm (fixed_reply ''I cannot plan this.'') (planner_init env_with_key)
              (generate_tasks_prompt ''What is AI?'' ''simple'' 2) None (Some (3 / 10)) (Some 1000)))"
proof -
  have call: "call_llm (fixed_reply ''I cannot plan this.'') (planner_init env_with_key)
       (generate_tasks_prompt ''What is AI?'' (case JString ''simple'' of JString s \<Rightarrow> s | _ \<Rightarrow> []) 2)
       None (Some (3 / 10)) (Some 1000)
     = (Inr ''I cannot plan this.'',
        snd (call_llm (fixed_reply ''I cannot plan this.'') (planner_init env_with_key)
              (generate_tasks_prompt ''What is AI?'' ''simple'' 2) None (Some (3 / 10)) (Some 1000)))"
    by (simp add: call_llm_fixed_reply [OF env_key])
  show ?thesis
    using fallback_on_decode_failure [OF simple_tier call not_json_fails] by simp
qed

lemma empty_tasks_reply:
  \<open>generate_tasks_try plain_json_loads q ''{"tasks": []}'' = Inr []\<close>
proof -
  have \<open>parse_response plain_json_loads ''{"tasks": []}'' = Inr (Some (JObject [(''tasks'', JArray [])]))\<close>
    by code_simp
  then show ?thesis
    unfolding parse_response_def generate_tasks_try_def ebind_def
    by (cases \<open>clean_json_response ''{"tasks": []}''\<close>) (auto simp: dict_get_def py_iter_def)
qed

lemma empty_tasks_complexity:
  \<open>assess_complexity_try plain_json_loads ''{"tasks": []}'' = Inr (JString ''moderate'')\<close>
  by code_simp

text \<open>
  C5, as stated, fails: a reply that decodes to an empty task list is returned as it
  is, and the Plan built from it has no task.
\<close>

theorem empty_reply_gives_empty_plan:
  \<open>map_sum id plan_tasks
     (fst (plan (fixed_reply ''{"tasks": []}'') plain_json_loads (planner_init env_with_key)
             ''What is AI?'')) = Inr []\<close>
proof -
  let ?svc = \<open>fixed_reply ''{"tasks": []}''\<close>
  have k2: "api_key (s\<lparr>conversation_history := h\<rparr>) = api_key s" for s :: agent and h by simp
  show ?thesis
    unfolding plan_def assess_complexity_def generate_tasks_def
    by (simp add: call_llm_fixed_reply [OF env_key] call_llm_fixed_reply [where k = "''sk-test''"]
          env_key empty_tasks_complexity empty_tasks_reply max_tasks_of_def hashable_def
          collect_agents_def estimate_duration_def ebind_def)
qed

section \<open>Planner: the tasks of a plan\<close>

lemma build_tasks_spec:
  "build_tasks items acc = Inr tasks \<Longrightarrow>
     \<exists>new. tasks = acc @ new \<and> length new = length items \<and>
       (\<forall>i < length items. make_task (items ! i) (length acc + i) = Inr (new ! i))"
proof (induction items arbitrary: acc)
  case Nil
  then show ?case by simp
next
  case (Cons t ts)
  from Cons.prems obtain task where mk: "make_task t (length acc) = Inr task"
    and rest: "build_tasks ts (acc @ [task]) = Inr tasks"
    by (auto simp: ebind_def split: sum.splits)
  from Cons.IH [OF rest] obtain new where new: "tasks = (acc @ [task]) @ new"
    "length new = length ts"
    "\<forall>i < length ts. make_task (ts ! i) (length (acc @ [task]) + i) = Inr (new ! i)"
    by blast
  have "\<forall>i < length (t # ts). make_task ((t # ts) ! i) (length acc + i) = Inr ((task # new) ! i)"
  proof (intro allI impI)
    fix i assume "i < length (t # ts)"
    then show "make_task ((t # ts) ! i) (length acc + i) = Inr ((task # new) ! i)"
      using mk new(3) by (cases i) auto
  qed
  with new show ?case by (intro exI [of _ "task # new"]) simp
qed

lemma make_task_fields:
  "make_task t n = Inr task \<Longrightarrow>
     dict_get t ''id'' (JInt (int n + 1)) = Inr (task_id task) \<and>
     dict_get t ''dependencies'' (JArray []) = Inr (task_dependencies task)"
  by (auto simp: make_task_def ebind_def split: sum.splits)

lemma generate_tasks_try_cases:
  assumes "generate_tasks_try loads query response = Inr tasks"
  shows "(decode_fails loads response \<and> tasks = [fallback_task query]) \<or>
         (\<exists>items. replied_tasks loads response = Some items \<and> build_tasks items [] = Inr tasks)"
proof -
  obtain r where r: "clean_json_response response = Inr r"
    using clean_json_response_total by blast
  show ?thesis
  proof (cases "loads r")
    case None
    with r assms show ?thesis
      by (simp add: generate_tasks_try_def decode_fails_def parse_response_def ebind_def)
  next
    case (Some data)
    with r assms show ?thesis
      by (auto simp: generate_tasks_try_def replied_tasks_def parse_response_def ebind_def
               split: sum.splits)
  qed
qed

text \<open>
  C1, as amended. Every task list that \<^verbatim>\<open>_generate_tasks\<close> returns is either the
  single fallback task of a reply that failed to decode, or has one task per entry of
  the reply's task list, in order, each with the id and the dependency ids of its entry
  as the reply gave them (by default its position and no dependency). No id is checked
  against the list and the list is not cut to the ceiling, so the plan has resolved
  dependencies and a count within the ceiling exactly when the reply has.
\<close>

theorem generated_tasks_are_the_replied_ones:
  assumes "generate_tasks svc loads self query complexity = (Inr tasks, self')"
  shows "\<exists>n response.
     max_tasks_of complexity = Inr n \<and>
     call_llm svc self
       (generate_tasks_prompt query (case complexity of JString s \<Rightarrow> s | _ \<Rightarrow> []) n)
       None (Some (3 / 10)) (Some 1000) = (Inr response, self') \<and>
     ((decode_fails loads response \<and> tasks = [fallback_task query]) \<or>
      (\<exists>items. replied_tasks loads response = Some items \<and>
         length tasks = length items \<and>
         (\<forall>i < length items.
            dict_get (items ! i) ''id'' (JInt (int i + 1)) = Inr (task_id (tasks ! i)) \<and>
            dict_get (items ! i) ''dependencies'' (JArray [])
              = Inr (task_dependencies (tasks ! i)))))"
proof -
  from assms obtain n where n: "max_tasks_of complexity = Inr n"
    by (cases "max_tasks_of complexity") (auto simp: generate_tasks_def)
  let ?call = "call_llm svc self
       (generate_tasks_prompt query (case complexity of JString s \<Rightarrow> s | _ \<Rightarrow> []) n)
       None (Some (3 / 10)) (Some 1000)"
  obtain out s1 where c: "?call = (out, s1)" by (cases ?call)
  with assms n obtain response where out: "out = Inr response"
    by (cases out) (auto simp: generate_tasks_def)
  from assms n c out have s1: "s1 = self'"
    and tr: "generate_tasks_try loads query response = Inr tasks"
    by (auto simp: generate_tasks_def)
  from generate_tasks_try_cases [OF tr]
  have "(decode_fails loads response \<and> tasks = [fallback_task query]) \<or>
      (\<exists>items. replied_tasks loads response = Some items \<and>
         length tasks = length items \<and>
         (\<forall>i < length items.
            dict_get (items ! i) ''id'' (JInt (int i + 1)) = Inr (task_id (tasks ! i)) \<and>
            dict_get (items ! i) ''dependencies'' (JArray [])
              = Inr (task_dependencies (tasks ! i))))"
  proof
    assume "decode_fails loads response \<and> tasks = [fallback_task query]"
    then show ?thesis by blast
  next
    assume "\<exists>items. replied_tasks loads response = Some items \<and> build_tasks items [] = Inr tasks"
    then obtain items where it: "replied_tasks loads response = Some items"
      and bt: "build_tasks items [] = Inr tasks" by blast
    from build_tasks_spec [OF bt] have len: "length tasks = length items"
      and each: "\<forall>i < length items. make_task (items ! i) i = Inr (tasks ! i)" by auto
    from each have "\<forall>i < length items.
            dict_get (items ! i) ''id'' (JInt (int i + 1)) = Inr (task_id (tasks ! i)) \<and>
            dict_get (items ! i) ''dependencies'' (JArray [])
              = Inr (task_dependencies (tasks ! i))"
      using make_task_fields by blast
    with it len show ?thesis by blast
  qed
  with n c out s1 show ?thesis by blast
qed

lemma overfull_try:
  "generate_tasks_try plain_json_loads ''What is AI?'' overfull_reply
    = Inr [plain_task 1 [JInt 7], plain_task 2 [], plain_task 3 []]"
  by code_simp

lemma overfull_generate:
  "fst (generate_tasks (fixed_reply overfull_reply) plain_json_loads
         (planner_init env_with_key) ''What is AI?'' (JString ''simple''))
    = Inr [plain_task 1 [JInt 7], plain_task 2 [], plain_task 3 []]"
  by (simp add: generate_tasks_def simple_tier call_llm_fixed_reply [OF env_key] overfull_try)

text \<open>
  C1, as stated, fails: for the simple tier (ceiling 2) a reply listing three tasks, one
  of them depending on an unlisted task 7, gives a plan of three tasks whose dependency
  ids are not all resolved.
\<close>

theorem replied_plan_breaks_validity:
  "max_tasks_of (JString ''simple'') = Inr 2
   \<and> map_sum id (\<lambda>tasks. (length tasks, deps_resolved tasks))
        (fst (generate_tasks (fixed_reply overfull_reply) plain_json_loads
                (planner_init env_with_key) ''What is AI?'' (JString ''simple'')))
      = Inr (3, False)"
  by (simp add: simple_tier overfull_generate deps_resolved_def dependency_ids_def
        py_iter_def plain_task_def)

theorem generated_tasks_are_the_replied_ones_witness:
  "\<exists>items. replied_tasks plain_json_loads overfull_reply = Some items \<and>
      length items = 3 \<and>
      dict_get (items ! 0) ''dependencies'' (JArray []) = Inr (JArray [JInt 7])"
proof -
  let ?g = "generate_tasks (fixed_reply overfull_reply) plain_json_loads
         (planner_init env_with_key) ''What is AI?'' (JString ''simple'')"
  let ?tasks = "[plain_task 1 [JInt 7], plain_task 2 [], plain_task 3 []]"
  have run: "?g = (Inr ?tasks, snd ?g)"
    using overfull_generate by (metis prod.collapse)
  from generated_tasks_are_the_replied_ones [OF run]
  obtain n response where
    call: "call_llm (fixed_reply overfull_reply) (planner_init env_with_key)
       (generate_tasks_prompt ''What is AI?'' (case JString ''simple'' of JString s \<Rightarrow> s | _ \<Rightarrow> []) n)
       None (Some (3 / 10)) (Some 1000) = (Inr response, snd ?g)"
    and alt: "(decode_fails plain_json_loads response \<and> ?tasks = [fallback_task ''What is AI?'']) \<or>
      (\<exists>items. replied_tasks plain_json_loads response = Some items \<and>
         length ?tasks = length items \<and>
         (\<forall>i < length items.
            dict_get (items ! i) ''id'' (JInt (int i + 1)) = Inr (task_id (?tasks ! i)) \<and>
            dict_get (items ! i) ''dependencies'' (JArray [])
              = Inr (task_dependencies (?tasks ! i))))"
    by blast
  from call have resp: "response = overfull_reply"
    by (simp add: call_llm_fixed_reply [OF env_key])
  from alt obtain items where it: "replied_tasks plain_json_loads response = Some items"
    and len: "length ?tasks = length items"
    and each: "\<forall>i < length items.
            dict_get (items ! i) ''dependencies'' (JArray [])
              = Inr (task_dependencies (?tasks ! i))"
    by auto
  from len have l3: "length items = 3" by simp
  with each have "dict_get (items ! 0) ''dependencies'' (JArray [])
              = Inr (task_dependencies (?tasks ! 0))" by simp
  then have "dict_get (items ! 0) ''dependencies'' (JArray []) = Inr (JArray [JInt 7])"
    by (simp add: plain_task_def)
  with it l3 resp show ?thesis by blast
qed

section \<open>Validator fail-safe\<close>















lemma call_fixed_snd:
  "api_key self = Some k \<Longrightarrow> k \<noteq> [] \<Longrightarrow>
     call_llm (fixed_reply r) self p sp t m = (Inr r, snd (call_llm (fixed_reply r) self p sp t m))"
  by (simp add: call_llm_fixed_reply)





section \<open>Researcher extraction guards\<close>

lemma extract_findings_try_decode_fails:
  assumes "decode_fails loads response"
  shows "extract_findings_try loads response = []"
proof -
  from decode_failsD [OF assms] obtain r where "clean_json_response response = Inr r" "loads r = None"
    by blast
  then show ?thesis
    by (simp add: extract_findings_try_def extract_findings_body_def ebind_def)
qed

lemma extract_findings_try_raised:
  "extract_findings_body loads response = Inl e \<Longrightarrow> extract_findings_try loads response = []"
  by (cases e) (simp_all add: extract_findings_try_def)

lemma extract_findings_try_returned:
  "extract_findings_body loads response = Inr fs \<Longrightarrow> extract_findings_try loads response = fs"
  by (simp add: extract_findings_try_def)

text \<open>
  C7. For every query, \<^verbatim>\<open>_extract_findings\<close> on an empty list of raw results returns
  the empty list and leaves the agent as it was, whatever the service is: the service is
  not invoked. Once the service has replied, the method always returns a list and never
  raises: when extraction fails (the reply does not decode, or anything else in the
  \<^verbatim>\<open>try\<close> block raises) it returns the empty list as a normal result, and otherwise
  the findings the block built.
\<close>

theorem extract_findings_guards:
  "extract_findings svc loads self query [] = (Inr [], self)
   \<and> (search_results \<noteq> []
      \<and> call_llm svc self (extract_findings_prompt query (format_results search_results)) None
           (Some (3 / 10)) (Some 2000) = (Inr response, self')
      \<longrightarrow> (\<exists>findings. extract_findings svc loads self query search_results
                         = (Inr findings, self'))
          \<and> (decode_fails loads response \<or> isl (extract_findings_body loads response)
               \<longrightarrow> extract_findings svc loads self query search_results = (Inr [], self'))
          \<and> (\<forall>findings. extract_findings_body loads response = Inr findings
               \<longrightarrow> extract_findings svc loads self query search_results
                     = (Inr findings, self')))"
proof -
  have empty: "extract_findings svc loads self query [] = (Inr [], self)"
    by (simp add: extract_findings_def)
  have run: "extract_findings svc loads self query search_results
        = (Inr (extract_findings_try loads response), self')"
    if "search_results \<noteq> []"
       "call_llm svc self (extract_findings_prompt query (format_results search_results)) None
           (Some (3 / 10)) (Some 2000) = (Inr response, self')"
    using that by (simp add: extract_findings_def)
  have failed: "extract_findings_try loads response = []"
    if "decode_fails loads response \<or> isl (extract_findings_body loads response)"
    using that
  proof
    assume "decode_fails loads response"
    then show ?thesis by (rule extract_findings_try_decode_fails)
  next
    assume "isl (extract_findings_body loads response)"
    then obtain e where "extract_findings_body loads response = Inl e"
      by (cases "extract_findings_body loads response") auto
    then show ?thesis by (rule extract_findings_try_raised)
  qed
  from empty run failed extract_findings_try_returned [of loads response]
  show ?thesis by (metis (no_types, lifting))
qed

lemma researcher_key: "api_key (researcher_init env_with_key m) = Some ''sk-test''"
  by (simp add: researcher_init_def agent_init_def env_with_key_def agent.extend_def)

lemma no_findings_reply_fails: "decode_fails plain_json_loads ''No findings here.''"
  by code_simp

lemma number_entry_raises:
  \<open>extract_findings_body plain_json_loads ''{"findings": [5]}'' = Inl AttributeError\<close>
  by code_simp

theorem extract_findings_guards_witness:
  \<open>extract_findings (fixed_reply ''No findings here.'') plain_json_loads
       (researcher_init env_with_key 3) ''What is AI?'' [] = (Inr [], researcher_init env_with_key 3)
   \<and> fst (extract_findings (fixed_reply ''No findings here.'') plain_json_loads
            (researcher_init env_with_key 3) ''What is AI?'' [sample_result]) = Inr []
   \<and> fst (extract_findings (fixed_reply ''{"findings": [5]}'') plain_json_loads
            (researcher_init env_with_key 3) ''What is AI?'' [sample_result]) = Inr []\<close>
proof -
  let ?a = "researcher_init env_with_key 3"
  let ?p = "extract_findings_prompt ''What is AI?'' (format_results [sample_result])"
  let ?r1 = "''No findings here.''"
  let ?r2 = \<open>''{"findings": [5]}''\<close>
  have k: "''sk-test'' \<noteq> []" by simp
  note c1 = call_fixed_snd [OF researcher_key [of 3] k, where r = ?r1 and p = ?p
      and sp = None and t = "Some (3 / 10)" and m = "Some 2000"]
  note c2 = call_fixed_snd [OF researcher_key [of 3] k, where r = ?r2 and p = ?p
      and sp = None and t = "Some (3 / 10)" and m = "Some 2000"]
  have ne: "[sample_result] \<noteq> []" by simp
  have raised: "isl (extract_findings_body plain_json_loads ?r2)"
    by (simp add: number_entry_raises)
  note g1 = extract_findings_guards [where svc = "fixed_reply ?r1"
      and loads = plain_json_loads and self = ?a and query = "''What is AI?''"
      and search_results = "[sample_result]" and response = ?r1
      and self' = "snd (call_llm (fixed_reply ?r1) ?a ?p None (Some (3 / 10)) (Some 2000))"]
  note g2 = extract_findings_guards [where svc = "fixed_reply ?r2"
      and loads = plain_json_loads and self = ?a and query = "''What is AI?''"
      and search_results = "[sample_result]" and response = ?r2
      and self' = "snd (call_llm (fixed_reply ?r2) ?a ?p None (Some (3 / 10)) (Some 2000))"]
  from g1 have e: "extract_findings (fixed_reply ?r1) plain_json_loads ?a ''What is AI?'' []
      = (Inr [], ?a)" by (rule conjunct1)
  from g1 ne c1 no_findings_reply_fails
  have a: "extract_findings (fixed_reply ?r1) plain_json_loads ?a ''What is AI?'' [sample_result]
      = (Inr [], snd (call_llm (fixed_reply ?r1) ?a ?p None (Some (3 / 10)) (Some 2000)))"
    by blast
  from g2 ne c2 raised
  have b: "extract_findings (fixed_reply ?r2) plain_json_loads ?a ''What is AI?'' [sample_result]
      = (Inr [], snd (call_llm (fixed_reply ?r2) ?a ?p None (Some (3 / 10)) (Some 2000)))"
    by blast
  from e a b show ?thesis by simp
qed

section \<open>Orchestrator depth\<close>

lemma research_quick:
  "research stages self query ''quick'' save_results output_prefix =
     stages (self\<lparr>researcher := (researcher self)\<lparr>max_searches := 1\<rparr>\<rparr>) query ''quick''
       save_results output_prefix"
  by (simp add: research_def)

text \<open>
  C6. \<^verbatim>\<open>depth="quick"\<close> sets the researcher's search budget to 1. For
  \<^verbatim>\<open>depth="comprehensive"\<close> the claim asks for the budget configured at construction,
  but \<^verbatim>\<open>research\<close> assigns the constant 3: an orchestrator built with
  \<^verbatim>\<open>max_searches=2\<close> runs its stages with a budget of 3.
\<close>

theorem comprehensive_overrides_configured_budget:
  "map_sum id
     (\<lambda>self. (max_searches (researcher self),
               fst (research report_budget self ''What is AI?'' ''comprehensive'' False ''research''),
               fst (research report_budget self ''What is AI?'' ''quick'' False ''research'')))
     (orchestrator_init env_with_key ''duckduckgo'' True 2)
   = Inr (2, Inr 3, Inr 1)"
  by (simp add: orchestrator_init_def web_search_tool_init_def ebind_def research_def
        report_budget_def researcher_init_def register_tool_def agent.extend_def
        researcher_agent.fields_def Let_def)

section \<open>Cleanup of wrapped payloads\<close>

lemma startswith_append_sep:
  assumes "py_startswith (xs @ c # ys) sub" "c \<notin> set sub"
  shows "py_startswith xs sub"
proof (cases "length sub \<le> length xs")
  case True
  with assms(1) show ?thesis by (simp add: py_startswith_def)
next
  case False
  from assms(1) have "sub = take (length sub) (xs @ c # ys)" by (simp add: py_startswith_def)
  also have "\<dots> = xs @ c # take (length sub - Suc (length xs)) ys"
    using False by (simp add: take_Cons')
  finally have "c \<in> set sub" by (metis in_set_conv_decomp)
  with assms(2) show ?thesis by simp
qed

lemma find_idx_None_startswith: "find_idx sub s = None \<Longrightarrow> \<not> py_startswith s sub"
  by (cases s) (auto simp: py_startswith_def split: if_splits)

lemma find_idx_append_sep:
  assumes "find_idx sub xs = None" "c \<notin> set sub"
  shows "find_idx sub (xs @ c # ys) = map_option (\<lambda>i. Suc (length xs + i)) (find_idx sub ys)"
  using assms(1)
proof (induction xs)
  case Nil
  then have "sub \<noteq> []" by (simp split: if_splits)
  with assms(2) have "\<not> py_startswith (c # ys) sub"
    by (cases sub) (auto simp: py_startswith_def)
  then show ?case by (simp add: option.map_comp comp_def)
next
  case (Cons x xs)
  from Cons.prems have ns: "\<not> py_startswith (x # xs) sub" and rest: "find_idx sub xs = None"
    by (auto split: if_splits)
  from ns have "\<not> py_startswith ((x # xs) @ c # ys) sub"
    using startswith_append_sep [OF _ assms(2)] by blast
  with Cons.IH [OF rest] show ?case by (simp add: option.map_comp comp_def)
qed

lemma startswith_longer:
  assumes "py_startswith s (p @ ext)"
  shows "py_startswith s p"
proof -
  from assms have "take (length p + length ext) s = p @ ext"
    by (simp add: py_startswith_def)
  then have "take (length p) (take (length p + length ext) s) = p" by simp
  then have "take (length p) s = p" by (simp add: min_def)
  then show ?thesis by (simp add: py_startswith_def)
qed

lemma find_idx_longer:
  "find_idx sub s = None \<Longrightarrow> find_idx (sub @ ext) s = None"
proof (induction s)
  case Nil
  then show ?case by (simp split: if_splits)
next
  case (Cons x xs)
  from Cons.prems have ns: "\<not> py_startswith (x # xs) sub" and rest: "find_idx sub xs = None"
    by (auto split: if_splits)
  have "\<not> py_startswith (x # xs) (sub @ ext)"
  proof
    assume "py_startswith (x # xs) (sub @ ext)"
    then have "take (length sub + length ext) (x # xs) = sub @ ext"
      by (simp add: py_startswith_def)
    then have "take (length sub) (take (length sub + length ext) (x # xs)) = sub" by simp
    then have "take (length sub) (x # xs) = sub" by (simp add: min_def)
    with ns show False by (simp add: py_startswith_def)
  qed
  with Cons.IH [OF rest] show ?case by simp
qed

lemma py_strip_id:
  assumes "s \<noteq> []" "\<not> py_isspace (hd s)" "\<not> py_isspace (last s)"
  shows "py_strip s = s"
proof -
  from assms have a: "dropWhile py_isspace s = s" by (cases s) auto
  from assms have "rev s \<noteq> []" "\<not> py_isspace (hd (rev s))" by (simp_all add: hd_rev)
  then have "dropWhile py_isspace (rev s) = rev s" by (cases "rev s") auto
  with a show ?thesis by (simp add: py_strip_def)
qed

lemma py_strip_padded:
  assumes "s \<noteq> []" "\<not> py_isspace (hd s)" "\<not> py_isspace (last s)"
    "\<forall>c \<in> set l. py_isspace c" "\<forall>c \<in> set r. py_isspace c"
  shows "py_strip (l @ s @ r) = s"
proof -
  from assms have a: "dropWhile py_isspace (l @ s @ r) = s @ r"
    by (cases s) (auto simp: dropWhile_append)
  have "dropWhile py_isspace (rev r @ rev s) = dropWhile py_isspace (rev s)"
    using assms(5) by (simp add: dropWhile_append)
  also have "\<dots> = rev s"
    using assms(1,3) by (cases "rev s") (auto simp: hd_rev [symmetric] last_rev)
  finally show ?thesis using a by (simp add: py_strip_def)
qed


lemma py_split_found:
  "sep \<noteq> [] \<Longrightarrow> find_idx sep s = Some i \<Longrightarrow>
     py_split s sep = take i s # py_split (drop (i + length sep) s) sep"
  by (subst py_split.simps) simp

lemma py_split_none: "find_idx sep s = None \<Longrightarrow> py_split s sep = [s]"
  by (subst py_split.simps) simp

lemma object_textD:
  assumes "object_text P"
  shows "P \<noteq> []" "hd P = CHR ''{''" "last P = CHR ''}''"
    "\<not> py_isspace (hd P)" "\<not> py_isspace (last P)"
proof -
  from assms show ne: "P \<noteq> []" and l: "last P = CHR ''}''" by (simp_all add: object_text_def)
  from assms ne show h: "hd P = CHR ''{''"
    by (cases P) (simp_all add: object_text_def py_startswith_def)
  from h show "\<not> py_isspace (hd P)" by (simp add: py_isspace_def)
  from l show "\<not> py_isspace (last P)" by (simp add: py_isspace_def)
qed

lemma object_text_strip: "object_text P \<Longrightarrow> py_strip P = P"
  using object_textD by (intro py_strip_id) auto

lemma nl_space: "\<forall>c \<in> set [CHR 0x0A]. py_isspace c"
  by (simp add: py_isspace_def)

lemma strip_padded_object: "object_text P \<Longrightarrow> py_strip ([CHR 0x0A] @ P @ [CHR 0x0A]) = P"
  using object_textD nl_space by (intro py_strip_padded) auto

lemma find_fence_tail:
  assumes "\<not> contains P ''```''"
  shows \<open>find_idx ''```'' ([CHR 0x0A] @ P @ [CHR 0x0A] @ ''```'') = Some (Suc (Suc (length P)))\<close>
    and \<open>find_idx ''```'' ([CHR 0x0A] @ P @ [CHR 0x0A]) = None\<close>
    and \<open>find_idx ''```json'' ([CHR 0x0A] @ P @ [CHR 0x0A] @ ''```'') = None\<close>
proof -
  from assms have n: \<open>find_idx ''```'' P = None\<close> by (simp add: contains_def)
  have e: \<open>find_idx ''```'' [] = None\<close> by simp
  have a: \<open>find_idx ''```'' (P @ CHR 0x0A # ''```'') = Some (Suc (length P))\<close>
    using find_idx_append_sep [OF n, of "CHR 0x0A" \<open>''```''\<close>] by (simp add: py_startswith_def)
  have b: \<open>find_idx ''```'' (P @ CHR 0x0A # []) = None\<close>
    using find_idx_append_sep [OF n, of "CHR 0x0A" "[]"] by simp
  show \<open>find_idx ''```'' ([CHR 0x0A] @ P @ [CHR 0x0A] @ ''```'') = Some (Suc (Suc (length P)))\<close>
    using find_idx_append_sep [OF e, of "CHR 0x0A" \<open>P @ CHR 0x0A # ''```''\<close>] a by simp
  show \<open>find_idx ''```'' ([CHR 0x0A] @ P @ [CHR 0x0A]) = None\<close>
    using find_idx_append_sep [OF e, of "CHR 0x0A" \<open>P @ CHR 0x0A # []\<close>] b by simp
  have nj: \<open>find_idx ''```json'' P = None\<close>
    using find_idx_longer [OF n, of "''json''"] by simp
  have ej: \<open>find_idx ''```json'' [] = None\<close> by simp
  have c: \<open>find_idx ''```json'' (P @ CHR 0x0A # ''```'') = None\<close>
    using find_idx_append_sep [OF nj, of "CHR 0x0A" \<open>''```''\<close>] by (simp add: py_startswith_def)
  show \<open>find_idx ''```json'' ([CHR 0x0A] @ P @ [CHR 0x0A] @ ''```'') = None\<close>
    using find_idx_append_sep [OF ej, of "CHR 0x0A" \<open>P @ CHR 0x0A # ''```''\<close>] c by simp
qed

lemma strip_code_fence_json:
  assumes "object_text P" "\<not> contains P ''```''"
  shows "strip_code_fence (fence_json P) = Inr P"
proof -
  let ?body = \<open>[CHR 0x0A] @ P @ [CHR 0x0A] @ ''```''\<close>
  have sw: \<open>py_startswith (fence_json P) ''```json''\<close>
    by (simp add: fence_json_def py_startswith_def)
  have f0: \<open>find_idx ''```json'' (fence_json P) = Some 0\<close>
    using sw by (rule find_idx_startswith)
  have dr: \<open>drop (0 + length ''```json'') (fence_json P) = ?body\<close>
    by (simp add: fence_json_def)
  have s1: \<open>py_split (fence_json P) ''```json'' = [[], ?body]\<close>
    using py_split_found [OF _ f0] dr py_split_none [OF find_fence_tail(3) [OF assms(2)]]
    by simp
  have s2: \<open>py_split ?body ''```'' ! 0 = [CHR 0x0A] @ P @ [CHR 0x0A]\<close>
    using py_split_found [OF _ find_fence_tail(1) [OF assms(2)]] by simp
  have i2: \<open>py_index (py_split ?body ''```'') 0 = Inr ([CHR 0x0A] @ P @ [CHR 0x0A])\<close>
    using s2 py_split_nonempty [of ?body \<open>''```''\<close>] by (simp add: py_index_def)
  show ?thesis
    unfolding strip_code_fence_def
    using sw s1 i2 strip_padded_object [OF assms(1)]
    by (simp add: ebind_def py_index_def)
qed

lemma strip_code_fence_plain:
  assumes "object_text P" "\<not> contains P ''```''"
  shows "strip_code_fence (fence_plain P) = Inr P"
proof -
  let ?body = \<open>[CHR 0x0A] @ P @ [CHR 0x0A] @ ''```''\<close>
  let ?mid = \<open>[CHR 0x0A] @ P @ [CHR 0x0A]\<close>
  have nsw: \<open>\<not> py_startswith (fence_plain P) ''```json''\<close>
    by (simp add: fence_plain_def py_startswith_def)
  have sw: \<open>py_startswith (fence_plain P) ''```''\<close>
    by (simp add: fence_plain_def py_startswith_def)
  have f0: \<open>find_idx ''```'' (fence_plain P) = Some 0\<close>
    using sw by (rule find_idx_startswith)
  have dr: \<open>drop (0 + length ''```'') (fence_plain P) = ?body\<close>
    by (simp add: fence_plain_def)
  have t: \<open>take (Suc (Suc (length P))) ?body = ?mid\<close> by simp
  have s1: \<open>py_split (fence_plain P) ''```'' ! 1 = ?mid\<close>
    \<open>1 < length (py_split (fence_plain P) ''```'')\<close>
    using py_split_found [OF _ f0] dr py_split_found [OF _ find_fence_tail(1) [OF assms(2)]] t
    by simp_all
  have s2: \<open>py_split ?mid ''```'' = [?mid]\<close>
    using py_split_none [OF find_fence_tail(2) [OF assms(2)]] .
  show ?thesis
    unfolding strip_code_fence_def
    using nsw sw s1 s2 strip_padded_object [OF assms(1)]
    by (simp add: ebind_def py_index_def)
qed


lemma fence_strip_id:
  \<open>py_strip (fence_json P) = fence_json P\<close> \<open>py_strip (fence_plain P) = fence_plain P\<close>
proof -
  have a: \<open>fence_json P \<noteq> []\<close> \<open>hd (fence_json P) = CHR 0x60\<close> \<open>last (fence_json P) = CHR 0x60\<close>
    by (simp_all add: fence_json_def)
  have b: \<open>fence_plain P \<noteq> []\<close> \<open>hd (fence_plain P) = CHR 0x60\<close> \<open>last (fence_plain P) = CHR 0x60\<close>
    by (simp_all add: fence_plain_def)
  have sp: "\<not> py_isspace (CHR 0x60)" by (simp add: py_isspace_def)
  show \<open>py_strip (fence_json P) = fence_json P\<close>
    using a sp by (intro py_strip_id) simp_all
  show \<open>py_strip (fence_plain P) = fence_plain P\<close>
    using b sp by (intro py_strip_id) simp_all
qed

lemma object_text_brace: \<open>object_text P \<Longrightarrow> py_startswith P ''{''\<close>
  by (simp add: object_text_def)

lemma extract_object_id: "object_text P \<Longrightarrow> extract_object P = P"
  by (simp add: extract_object_def object_text_brace)

lemma strip_code_fence_object: "object_text P \<Longrightarrow> strip_code_fence P = Inr P"
proof -
  assume o: "object_text P"
  from object_textD(1,2) [OF o] obtain r where P: "P = CHR ''{'' # r"
    by (cases P) auto
  show ?thesis
    unfolding strip_code_fence_def by (simp add: P py_startswith_def)
qed

lemma clean_object:
  assumes "object_text P"
  shows "clean_json_response P = Inr P" "clean_fenced_response P = Inr P"
  using assms
  by (simp_all add: clean_json_response_def clean_fenced_response_def object_text_strip
        strip_code_fence_object extract_object_id ebind_def)

lemma clean_fenced:
  assumes "object_text P" "\<not> contains P ''```''"
  shows "clean_json_response (fence_json P) = Inr P" "clean_json_response (fence_plain P) = Inr P"
    "clean_fenced_response (fence_json P) = Inr P" "clean_fenced_response (fence_plain P) = Inr P"
  using assms
  by (simp_all add: clean_json_response_def clean_fenced_response_def fence_strip_id
        strip_code_fence_json strip_code_fence_plain extract_object_id ebind_def)

lemma find_idx_single:
  "c \<notin> set q \<Longrightarrow> find_idx [c] (q @ c # rest) = Some (length q)"
  by (induction q) (auto simp: py_startswith_def)

lemma rfind_idx_single_last: "rfind_idx [c] (xs @ [c]) = Some (length xs)"
  by (induction xs) (auto simp: py_startswith_def)

lemma py_slice_suffix: "py_slice (q @ P) (int (length q)) (int (length q + length P)) = P"
  by (simp add: py_slice_def slice_bound_def Let_def)

lemma clean_prose:
  assumes o: "object_text P" and nb: "CHR ''{'' \<notin> set prose"
    and nf: \<open>\<not> py_startswith (py_strip (prose @ P)) ''```''\<close>
  shows "clean_json_response (prose @ P) = Inr P"
proof -
  note d = object_textD [OF o]
  let ?q = "dropWhile py_isspace prose"
  from d obtain r where P: "P = CHR ''{'' # r" by (cases P) auto
  from d obtain b where Pl: "P = b @ [CHR ''}'']"
    by (metis append_butlast_last_id)
  have dw: "dropWhile py_isspace (prose @ P) = ?q @ P"
    using d(4) by (cases P) (auto simp: dropWhile_append P)
  have "dropWhile py_isspace (rev P @ rev ?q) = rev P @ rev ?q"
    using d(5) by (simp add: Pl)
  with dw have st: "py_strip (prose @ P) = ?q @ P"
    by (simp add: py_strip_def)
  from nf have nj: \<open>\<not> py_startswith (py_strip (prose @ P)) ''```json''\<close>
    using startswith_longer [of "py_strip (prose @ P)" \<open>''```''\<close> "''json''"] by auto
  from nf nj have sf: "strip_code_fence (?q @ P) = Inr (?q @ P)"
    by (simp add: strip_code_fence_def st)
  have nbq: "CHR ''{'' \<notin> set ?q" using nb set_dropWhileD by fastforce
  have eo: "extract_object (?q @ P) = P"
  proof (cases "?q = []")
    case True
    then have "?q @ P = P" by (simp only: append_Nil)
    with extract_object_id [OF o] show ?thesis by (simp only:)
  next
    case False
    then have ns: \<open>\<not> py_startswith (?q @ P) ''{''\<close>
      using nbq by (cases ?q) (auto simp: py_startswith_def)
    have f: \<open>py_find (?q @ P) ''{'' = int (length ?q)\<close>
      using find_idx_single [OF nbq, of r] by (simp add: py_find_def P)
    have rf: \<open>py_rfind (?q @ P) ''}'' = int (length ?q + length P) - 1\<close>
      using rfind_idx_single_last [of "CHR ''}''" "?q @ b"] by (simp add: py_rfind_def Pl)
    have pos: "0 < length P" using d(1) by simp
    show ?thesis
      unfolding extract_object_def Let_def
      using ns f rf pos py_slice_suffix [of ?q P] by simp
  qed
  show ?thesis
    by (simp add: clean_json_response_def st sf eo ebind_def)
qed

text \<open>
  C2, as amended. For any payload P that opens with a brace, closes with one and contains
  no fence marker, the cleanup-and-decode routine gives the same structure for P, for P
  wrapped in fence markers (with or without the language tag), and, in the full form of
  the routine, for P prefixed with prose that contains no opening brace and does not make
  the trimmed text open with a fence marker: in each case the decoder is applied to P
  itself.
\<close>

theorem cleanup_recovers_object_text:
  assumes "object_text P" and \<open>\<not> contains P ''```''\<close>
  shows \<open>parse_response loads (fence_json P) = Inr (loads P)
       \<and> parse_response loads (fence_plain P) = Inr (loads P)
       \<and> parse_fenced_response loads (fence_json P) = Inr (loads P)
       \<and> parse_fenced_response loads (fence_plain P) = Inr (loads P)
       \<and> parse_response loads P = Inr (loads P)
       \<and> parse_fenced_response loads P = Inr (loads P)
       \<and> (CHR ''{'' \<notin> set prose \<and> \<not> py_startswith (py_strip (prose @ P)) ''```''
            \<longrightarrow> parse_response loads (prose @ P) = Inr (loads P))\<close>
  using clean_fenced [OF assms] clean_object [OF assms(1)] clean_prose [OF assms(1), of prose]
  by (simp add: parse_response_def parse_fenced_response_def ebind_def)

lemma sample_object: \<open>object_text ''{"a": 1}''\<close> \<open>\<not> contains ''{"a": 1}'' ''```''\<close>
  by code_simp+

lemma sample_prose:
  \<open>CHR ''{'' \<notin> set ''Here is the result: ''\<close>
  \<open>\<not> py_startswith (py_strip (''Here is the result: '' @ ''{"a": 1}'')) ''```''\<close>
  by code_simp+

lemma sample_loads: \<open>plain_json_loads ''{"a": 1}'' = Some (JObject [(''a'', JInt 1)])\<close>
  by code_simp

theorem cleanup_recovers_object_text_witness:
  \<open>parse_response plain_json_loads (fence_json ''{"a": 1}'') = Inr (Some (JObject [(''a'', JInt 1)]))
   \<and> parse_response plain_json_loads (fence_plain ''{"a": 1}'') = Inr (Some (JObject [(''a'', JInt 1)]))
   \<and> parse_response plain_json_loads (''Here is the result: '' @ ''{"a": 1}'')
       = Inr (Some (JObject [(''a'', JInt 1)]))\<close>
  using cleanup_recovers_object_text [OF sample_object, of plain_json_loads "''Here is the result: ''"]
    sample_prose
  unfolding sample_loads by blast

text \<open>
  C2, as stated, fails. A payload that decodes on its own but holds a fence marker inside
  a string is cut at that marker when it is wrapped; a prose prefix that contains a
  brace moves the start of the slice into the prose; and in \<^verbatim>\<open>_plan_searches\<close>,
  whose cleanup has no brace search, any prose prefix makes the decoder fail.
\<close>

theorem cleanup_loses_payload:
  \<open>plain_json_loads ''{"a": "```"}'' = Some (JObject [(''a'', JString ''```'')])
   \<and> parse_response plain_json_loads (fence_json ''{"a": "```"}'') = Inr None
   \<and> plain_json_loads ''{"a": 1}'' = Some (JObject [(''a'', JInt 1)])
   \<and> parse_response plain_json_loads (''Here is {the} answer: '' @ ''{"a": 1}'') = Inr None
   \<and> parse_fenced_response plain_json_loads (''Sure: '' @ ''{"a": 1}'') = Inr None\<close>
proof -
  have a: \<open>plain_json_loads ''{"a": "```"}'' = Some (JObject [(''a'', JString ''```'')])\<close>
    by code_simp
  have b: \<open>parse_response plain_json_loads (fence_json ''{"a": "```"}'') = Inr None\<close>
    by code_simp
  have c: \<open>parse_response plain_json_loads (''Here is {the} answer: '' @ ''{"a": 1}'') = Inr None\<close>
    by code_simp
  have d: \<open>parse_fenced_response plain_json_loads (''Sure: '' @ ''{"a": 1}'') = Inr None\<close>
    by code_simp
  from a b c d sample_loads show ?thesis by blast
qed

section \<open>Independence of per-finding validation\<close>

lemma llm_request_last:
  "(llm_request (self\<lparr>conversation_history := h\<rparr>) p sp t m)
      \<lparr>req_messages := [last (req_messages (llm_request (self\<lparr>conversation_history := h\<rparr>) p sp t m))]\<rparr>
   = (llm_request (self\<lparr>conversation_history := []\<rparr>) p sp t m)
      \<lparr>req_messages := [\<lparr>msg_role = ''user'', msg_content = p\<rparr>]\<rparr>"
  by (cases m; cases t; cases sp) (simp_all add: llm_request_def Let_def)

lemma svc_request_indep:
  assumes "ignores_history svc"
  shows "svc (llm_request (self\<lparr>conversation_history := h\<rparr>) p sp t m)
       = svc (llm_request (self\<lparr>conversation_history := []\<rparr>) p sp t m)"
proof -
  have "svc (llm_request (self\<lparr>conversation_history := k\<rparr>) p sp t m)
      = svc ((llm_request (self\<lparr>conversation_history := []\<rparr>) p sp t m)
               \<lparr>req_messages := [\<lparr>msg_role = ''user'', msg_content = p\<rparr>]\<rparr>)" for k
    using assms [unfolded ignores_history_def, rule_format,
                 of "llm_request (self\<lparr>conversation_history := k\<rparr>) p sp t m"]
    by (simp only: llm_request_last)
  from this [of h] this [of "[]"] show ?thesis by simp
qed

lemma call_llm_hist:
  assumes "ignores_history svc"
  shows "fst (call_llm svc (self\<lparr>conversation_history := h\<rparr>) p sp t m)
           = fst (call_llm svc (self\<lparr>conversation_history := []\<rparr>) p sp t m)"
    and "\<exists>h'. snd (call_llm svc (self\<lparr>conversation_history := h\<rparr>) p sp t m)
           = self\<lparr>conversation_history := h'\<rparr>"
proof -
  note eq = svc_request_indep [OF assms, where self = self and h = h and p = p and sp = sp and t = t and m = m]
  show "fst (call_llm svc (self\<lparr>conversation_history := h\<rparr>) p sp t m)
           = fst (call_llm svc (self\<lparr>conversation_history := []\<rparr>) p sp t m)"
    unfolding call_llm_def eq by (simp split: sum.splits)
  show "\<exists>h'. snd (call_llm svc (self\<lparr>conversation_history := h\<rparr>) p sp t m)
           = self\<lparr>conversation_history := h'\<rparr>"
    unfolding call_llm_def by (auto split: sum.splits)
qed


lemma evaluate_source_fst_snd:
  "fst (evaluate_source svc loads render fos self src url)
     = (case fst (call_llm svc self (evaluate_source_prompt render src url) None
                    (Some (1 / 10)) (Some 500)) of
          Inl e \<Rightarrow> Inl e
        | Inr r \<Rightarrow> evaluate_source_try loads fos src r)"
  "snd (evaluate_source svc loads render fos self src url)
     = snd (call_llm svc self (evaluate_source_prompt render src url) None
              (Some (1 / 10)) (Some 500))"
  by (simp_all add: evaluate_source_def split: prod.splits sum.splits)

lemma validate_content_fst_snd:
  "fst (validate_content svc loads render fos self c kp src)
     = (case py_iter kp of
          Inl e \<Rightarrow> Inl e
        | Inr points \<Rightarrow>
            (case fst (call_llm svc self (validate_content_prompt render c points src) None
                         (Some (1 / 10)) (Some 500)) of
               Inl e \<Rightarrow> Inl e
             | Inr r \<Rightarrow> validate_content_try loads fos r))"
  "snd (validate_content svc loads render fos self c kp src)
     = (case py_iter kp of
          Inl e \<Rightarrow> self
        | Inr points \<Rightarrow>
            snd (call_llm svc self (validate_content_prompt render c points src) None
                   (Some (1 / 10)) (Some 500)))"
  by (simp_all add: validate_content_def split: prod.splits sum.splits)

lemma evaluate_source_hist:
  assumes "ignores_history svc"
  shows "fst (evaluate_source svc loads render fos (self\<lparr>conversation_history := h\<rparr>) src url)
       = fst (evaluate_source svc loads render fos (self\<lparr>conversation_history := []\<rparr>) src url)"
    and "\<exists>h'. snd (evaluate_source svc loads render fos (self\<lparr>conversation_history := h\<rparr>) src url)
           = self\<lparr>conversation_history := h'\<rparr>"
  unfolding evaluate_source_fst_snd
  using call_llm_hist [OF assms, where self = self and h = h] by simp_all

lemma validate_content_hist:
  assumes "ignores_history svc"
  shows "fst (validate_content svc loads render fos (self\<lparr>conversation_history := h\<rparr>) c kp src)
       = fst (validate_content svc loads render fos (self\<lparr>conversation_history := []\<rparr>) c kp src)"
    and "\<exists>h'. snd (validate_content svc loads render fos (self\<lparr>conversation_history := h\<rparr>) c kp src)
           = self\<lparr>conversation_history := h'\<rparr>"
proof -
  show "fst (validate_content svc loads render fos (self\<lparr>conversation_history := h\<rparr>) c kp src)
       = fst (validate_content svc loads render fos (self\<lparr>conversation_history := []\<rparr>) c kp src)"
    unfolding validate_content_fst_snd
    using call_llm_hist(1) [OF assms, where self = self and h = h]
    by (simp split: sum.splits)
  show "\<exists>h'. snd (validate_content svc loads render fos (self\<lparr>conversation_history := h\<rparr>) c kp src)
           = self\<lparr>conversation_history := h'\<rparr>"
    unfolding validate_content_fst_snd
    using call_llm_hist(2) [OF assms, where self = self and h = h]
    by (cases "py_iter kp") auto
qed

lemma validate_one_fst_snd:
  "fst (validate_one svc loads render fos self f)
     = (case fst (evaluate_source svc loads render fos self (finding_source f) (finding_url f)) of
          Inl e \<Rightarrow> Inl e
        | Inr se \<Rightarrow>
            (case fst (validate_content svc loads render fos
                         (snd (evaluate_source svc loads render fos self
                                 (finding_source f) (finding_url f)))
                         (finding_content f) (finding_key_points f) (finding_source f)) of
               Inl e \<Rightarrow> Inl e
             | Inr cv \<Rightarrow>
                 Inr \<lparr>original_finding = f, source_evaluation = se, content_validation = cv,
                      overall_credibility =
                        se_credibility_score se * (6 / 10) + vr_credibility_score cv * (4 / 10)\<rparr>))"
  "snd (validate_one svc loads render fos self f)
     = (case fst (evaluate_source svc loads render fos self (finding_source f) (finding_url f)) of
          Inl e \<Rightarrow> snd (evaluate_source svc loads render fos self (finding_source f) (finding_url f))
        | Inr se \<Rightarrow>
            snd (validate_content svc loads render fos
                   (snd (evaluate_source svc loads render fos self
                           (finding_source f) (finding_url f)))
                   (finding_content f) (finding_key_points f) (finding_source f)))"
  by (simp_all add: validate_one_def split: prod.splits sum.splits)

lemma validate_one_hist:
  assumes "ignores_history svc"
  shows "fst (validate_one svc loads render fos (self\<lparr>conversation_history := h\<rparr>) f)
       = fst (validate_one svc loads render fos (self\<lparr>conversation_history := []\<rparr>) f)"
    and "\<exists>h'. snd (validate_one svc loads render fos (self\<lparr>conversation_history := h\<rparr>) f)
           = self\<lparr>conversation_history := h'\<rparr>"
proof -
  let ?E = "\<lambda>k. evaluate_source svc loads render fos (self\<lparr>conversation_history := k\<rparr>)
                (finding_source f) (finding_url f)"
  obtain h1 where h1: "snd (?E h) = self\<lparr>conversation_history := h1\<rparr>"
    using evaluate_source_hist(2) [OF assms] by blast
  obtain h0 where h0: "snd (?E []) = self\<lparr>conversation_history := h0\<rparr>"
    using evaluate_source_hist(2) [OF assms] by blast
  have fe: "fst (?E h) = fst (?E [])" using evaluate_source_hist(1) [OF assms] .
  have vc: "fst (validate_content svc loads render fos (self\<lparr>conversation_history := h1\<rparr>) c kp src)
      = fst (validate_content svc loads render fos (self\<lparr>conversation_history := h0\<rparr>) c kp src)"
    for c kp src
    using validate_content_hist(1) [OF assms, where self = self and h = h1]
          validate_content_hist(1) [OF assms, where self = self and h = h0] by simp
  show "fst (validate_one svc loads render fos (self\<lparr>conversation_history := h\<rparr>) f)
       = fst (validate_one svc loads render fos (self\<lparr>conversation_history := []\<rparr>) f)"
    unfolding validate_one_fst_snd h1 h0 fe vc ..
  obtain h2 where "snd (validate_content svc loads render fos (self\<lparr>conversation_history := h1\<rparr>)
        (finding_content f) (finding_key_points f) (finding_source f))
      = self\<lparr>conversation_history := h2\<rparr>"
    using validate_content_hist(2) [OF assms] by blast
  then show "\<exists>h'. snd (validate_one svc loads render fos (self\<lparr>conversation_history := h\<rparr>) f)
           = self\<lparr>conversation_history := h'\<rparr>"
    unfolding validate_one_fst_snd h1 by (auto split: sum.splits)
qed

lemma validate_loop_spec:
  assumes ih: "ignores_history svc"
  shows "validate_loop svc loads render fos (self\<lparr>conversation_history := h\<rparr>) fs acc = (Inr vs, s')
    \<Longrightarrow> \<exists>new. vs = acc @ new \<and> length new = length fs \<and>
        (\<forall>i < length fs.
           fst (validate_one svc loads render fos (self\<lparr>conversation_history := []\<rparr>) (fs ! i))
             = Inr (new ! i))"
proof (induction fs arbitrary: h acc)
  case Nil
  then show ?case by simp
next
  case (Cons f fs)
  let ?one = "validate_one svc loads render fos (self\<lparr>conversation_history := h\<rparr>) f"
  obtain out s1 where one: "?one = (out, s1)" by (cases ?one)
  with Cons.prems obtain v where out: "out = Inr v"
    by (cases out) auto
  from one out Cons.prems
  have loop: "validate_loop svc loads render fos s1 fs (acc @ [v]) = (Inr vs, s')" by simp
  from validate_one_hist(2) [OF ih, where self = self and h = h and f = f
       and loads = loads and render = render and fos = fos] one
  obtain h1 where s1: "s1 = self\<lparr>conversation_history := h1\<rparr>" by auto
  from validate_one_hist(1) [OF ih, where self = self and h = h and f = f
       and loads = loads and render = render and fos = fos] one out
  have v0: "fst (validate_one svc loads render fos (self\<lparr>conversation_history := []\<rparr>) f) = Inr v"
    by simp
  from Cons.IH [OF loop [unfolded s1]]
  obtain new where new: "vs = (acc @ [v]) @ new" "length new = length fs"
    "\<forall>i < length fs.
       fst (validate_one svc loads render fos (self\<lparr>conversation_history := []\<rparr>) (fs ! i))
         = Inr (new ! i)" by blast
  have "\<forall>i < length (f # fs).
       fst (validate_one svc loads render fos (self\<lparr>conversation_history := []\<rparr>) ((f # fs) ! i))
         = Inr ((v # new) ! i)"
  proof (intro allI impI)
    fix i assume "i < length (f # fs)"
    then show "fst (validate_one svc loads render fos (self\<lparr>conversation_history := []\<rparr>)
                 ((f # fs) ! i)) = Inr ((v # new) ! i)"
      using v0 new(3) by (cases i) auto
  qed
  with new(1,2) show ?case by (intro exI [of _ "v # new"]) simp
qed

text \<open>
  C8, as amended. When the service's reply does not depend on the conversation history
  it is sent, each finding's validation record depends only on that finding: two runs of
  \<^verbatim>\<open>validate_findings\<close> that both return, started from any two histories, give the
  same record at every position where they are given the same finding.
\<close>

theorem validation_independent_without_history:
  assumes "ignores_history svc"
    and "validate_findings svc loads render fos self fs = (Inr vs, s1)"
    and "validate_findings svc loads render fos (self\<lparr>conversation_history := h\<rparr>) gs = (Inr ws, s2)"
    and "i < length fs" "i < length gs" "fs ! i = gs ! i"
  shows "vs ! i = ws ! i"
proof -
  have self: "self\<lparr>conversation_history := conversation_history self\<rparr> = self" by simp
  from assms(2) have r1: "validate_loop svc loads render fos
      (self\<lparr>conversation_history := conversation_history self\<rparr>) fs [] = (Inr vs, s1)"
    by (simp add: validate_findings_def)
  from assms(3) have r2: "validate_loop svc loads render fos
      (self\<lparr>conversation_history := h\<rparr>) gs [] = (Inr ws, s2)"
    by (simp add: validate_findings_def)
  from validate_loop_spec [OF assms(1) r1] assms(4)
  have a: "fst (validate_one svc loads render fos (self\<lparr>conversation_history := []\<rparr>) (fs ! i))
      = Inr (vs ! i)" by auto
  from validate_loop_spec [OF assms(1) r2] assms(5)
  have b: "fst (validate_one svc loads render fos (self\<lparr>conversation_history := []\<rparr>) (gs ! i))
      = Inr (ws ! i)" by auto
  from a b assms(6) show ?thesis by simp
qed

lemma named_source_prompt:
  "CHR 0x0A \<notin> set s \<Longrightarrow> named_source (evaluate_source_prompt render (JString s) url) = s"
  by (simp add: named_source_def evaluate_source_prompt_def fstr_def takeWhile_append)


lemma swayed_call_first:
  assumes "api_key self = Some k" "k \<noteq> []" "conversation_history self = []"
  shows "call_llm history_swayed_reply self p None t m
    = (Inr (swayed_text p),
       self\<lparr>conversation_history :=
          [\<lparr>msg_role = ''user'', msg_content = p\<rparr>,
           \<lparr>msg_role = ''assistant'', msg_content = swayed_text p\<rparr>]\<rparr>)"
  using assms
  by (simp add: call_llm_def history_swayed_reply_def llm_request_def Let_def py_slice_def
        slice_bound_def)

lemma swayed_call_later:
  assumes "api_key self = Some k" "k \<noteq> []" "conversation_history self \<noteq> []"
    "length (conversation_history self) \<le> 10"
  shows "call_llm history_swayed_reply self p None t m
    = (Inr (swayed_text (msg_content (hd (conversation_history self)))),
       self\<lparr>conversation_history := conversation_history self @
          [\<lparr>msg_role = ''user'', msg_content = p\<rparr>,
           \<lparr>msg_role = ''assistant'',
             msg_content = swayed_text (msg_content (hd (conversation_history self)))\<rparr>]\<rparr>)"
proof -
  have "py_slice (conversation_history self) (- 10) (int (length (conversation_history self)))
      = conversation_history self"
    using assms(4) by (simp add: py_slice_def slice_bound_def Let_def)
  with assms(1-3) show ?thesis
    by (simp add: call_llm_def history_swayed_reply_def llm_request_def Let_def)
qed

lemma swayed_parse:
  \<open>clean_json_response ''{"credibility_score": 0.9}'' = Inr ''{"credibility_score": 0.9}''\<close>
  \<open>clean_json_response ''{"credibility_score": 0.1}'' = Inr ''{"credibility_score": 0.1}''\<close>
  \<open>plain_json_loads ''{"credibility_score": 0.9}''
     = Some (JObject [(''credibility_score'', JFloat (9 / 10))])\<close>
  \<open>plain_json_loads ''{"credibility_score": 0.1}''
     = Some (JObject [(''credibility_score'', JFloat (1 / 10))])\<close>
  by code_simp+

lemma swayed_try:
  "evaluate_source_try plain_json_loads plain_float_of_str src (swayed_text c)
     = Inr \<lparr>se_source = src,
            se_credibility_score = (if named_source c = ''nature.com'' then 9 / 10 else 1 / 10),
            se_source_type = JString ''Unknown'', se_strengths = JArray [],
            se_concerns = JArray []\<rparr>"
  "validate_content_try plain_json_loads plain_float_of_str (swayed_text c)
     = Inr \<lparr>vr_is_valid = JBool True,
            vr_credibility_score = (if named_source c = ''nature.com'' then 9 / 10 else 1 / 10),
            vr_issues = JArray [], vr_warnings = JArray [], vr_reasoning = JString []\<rparr>"
  by (simp_all add: swayed_text_def swayed_parse evaluate_source_try_def evaluate_source_body_def
        validate_content_try_def validate_content_body_def ebind_def dict_get_def py_float_def)

lemma swayed_run:
  assumes "CHR 0x0A \<notin> set a"
  shows "map_sum id (map overall_credibility)
     (fst (validate_findings history_swayed_reply plain_json_loads atom_str plain_float_of_str
             (validator_init env_with_key) [finding_of_source a, finding_of_source b]))
   = Inr (if a = ''nature.com'' then [9 / 10, 9 / 10] else [1 / 10, 1 / 10])"
proof -
  let ?v = "validator_init env_with_key"
  have k: "api_key ?v = Some ''sk-test''" "''sk-test'' \<noteq> []" "conversation_history ?v = []"
    by (simp_all add: validator_init_def agent_init_def env_with_key_def)
  note ns = named_source_prompt [OF assms]
  show ?thesis
    unfolding validate_findings_def
    by (simp add: validate_one_def evaluate_source_def validate_content_def finding_of_source_def
          swayed_call_first [OF k] swayed_call_later [where k = "''sk-test''"] k swayed_try
          py_iter_def ns)
qed

text \<open>
  C8, as stated, fails: \<^verbatim>\<open>call_llm\<close> sends the last ten messages of the validator's
  history with every request, so the reply for one finding may depend on the findings
  validated before it. With a service swayed by the first message of the conversation,
  the same finding in second position is rated 0.9 after a finding from a trusted site
  and 0.1 after another one.
\<close>

theorem validation_swayed_by_earlier_finding:
  "map_sum id (map overall_credibility)
     (fst (validate_findings history_swayed_reply plain_json_loads atom_str plain_float_of_str
             (validator_init env_with_key)
             [finding_of_source ''nature.com'', finding_of_source ''blog.example'']))
     = Inr [9 / 10, 9 / 10]
   \<and> map_sum id (map overall_credibility)
     (fst (validate_findings history_swayed_reply plain_json_loads atom_str plain_float_of_str
             (validator_init env_with_key)
             [finding_of_source ''spam.example'', finding_of_source ''blog.example'']))
     = Inr [1 / 10, 1 / 10]"
  using swayed_run [of "''nature.com''" "''blog.example''"]
        swayed_run [of "''spam.example''" "''blog.example''"]
  by simp

lemma steady_parse:
  \<open>clean_json_response ''{"credibility_score": 0.8}'' = Inr ''{"credibility_score": 0.8}''\<close>
  \<open>plain_json_loads ''{"credibility_score": 0.8}''
     = Some (JObject [(''credibility_score'', JFloat (8 / 10))])\<close>
  by code_simp+

lemma steady_run:
  \<open>\<exists>vs. fst (validate_findings (fixed_reply ''{"credibility_score": 0.8}'') plain_json_loads
                atom_str plain_float_of_str (validator_init env_with_key)
                [finding_of_source a, finding_of_source b]) = Inr vs\<close>
proof -
  have k: "api_key (validator_init env_with_key) = Some ''sk-test''"
    by (simp add: validator_init_def agent_init_def env_with_key_def)
  show ?thesis
    unfolding validate_findings_def
    by (simp add: validate_one_def evaluate_source_def validate_content_def finding_of_source_def
          call_llm_fixed_reply [where k = "''sk-test''"] k steady_parse py_iter_def
          evaluate_source_try_def evaluate_source_body_def
          validate_content_try_def validate_content_body_def ebind_def dict_get_def py_float_def)
qed

lemma steady_ignores: "ignores_history (fixed_reply r)"
  by (simp add: ignores_history_def fixed_reply_def)

theorem validation_independent_without_history_witness:
  \<open>projr (fst (validate_findings (fixed_reply ''{"credibility_score": 0.8}'') plain_json_loads
                atom_str plain_float_of_str (validator_init env_with_key)
                [finding_of_source ''a.org'', finding_of_source ''blog.example''])) ! 1
   = projr (fst (validate_findings (fixed_reply ''{"credibility_score": 0.8}'') plain_json_loads
                atom_str plain_float_of_str (validator_init env_with_key)
                [finding_of_source ''b.org'', finding_of_source ''blog.example''])) ! 1\<close>
proof -
  let ?svc = \<open>fixed_reply ''{"credibility_score": 0.8}''\<close>
  let ?v = "validator_init env_with_key"
  let ?fs = "[finding_of_source ''a.org'', finding_of_source ''blog.example'']"
  let ?gs = "[finding_of_source ''b.org'', finding_of_source ''blog.example'']"
  let ?X = "validate_findings ?svc plain_json_loads atom_str plain_float_of_str ?v ?fs"
  let ?Y = "validate_findings ?svc plain_json_loads atom_str plain_float_of_str ?v ?gs"
  from steady_run [of "''a.org''" "''blog.example''"] obtain vs where vs: "fst ?X = Inr vs" by blast
  from steady_run [of "''b.org''" "''blog.example''"] obtain ws where ws: "fst ?Y = Inr ws" by blast
  have x: "?X = (Inr vs, snd ?X)" using vs by (metis prod.collapse)
  have "?v\<lparr>conversation_history := conversation_history ?v\<rparr> = ?v" by simp
  then have y: "validate_findings ?svc plain_json_loads atom_str plain_float_of_str
       (?v\<lparr>conversation_history := conversation_history ?v\<rparr>) ?gs = (Inr ws, snd ?Y)"
    using ws by (metis prod.collapse)
  have "vs ! 1 = ws ! 1"
    by (rule validation_independent_without_history [OF steady_ignores x y]) simp_all
  with vs ws show ?thesis by simp
qed

end
